theory Spec2Isabelle
  imports Complex_Main "HOL-Library.Sublist" "HOL-Library.Log_Nat"
begin

section \<open>Values, errors and the external services\<close>

text \<open>
  The notebook \<^verbatim>\<open>examples/FinancialAnalysisSystem.ipynb\<close> defines one class,
  \<^verbatim>\<open>FinancialAnalysisSystem\<close>. Its methods are embedded below as functions on an
  explicit state; an exception is the left summand of the result.

  Text is a list of 8-bit characters (the UTF-8 bytes of a Python \<^verbatim>\<open>str\<close>).

  A Python float is a binary64 number. It is modelled by its exact value, a rational,
  and every operation on floats rounds its exact result to the nearest binary64 number,
  a tie to the one with the even significand (\<open>rnd64\<close> below), as the hardware does.
  The model has the finite numbers only: no infinity (a result beyond the largest
  binary64 number), no NaN and no sign of zero. The numbers of this program stay far
  from overflow: the random fields lie between -5 and 500 and a sentiment score between
  -1 and 1.
\<close>

datatype exn =
    ExternalError string
  | KeyError string
  | TypeError
  | IndexError
  | AttributeError
  | ZeroDivisionError

datatype atom = Str string | Num rat

datatype pyval = Atom atom | Dict "(string \<times> atom) list"

record chat_message =
  role :: string
  content :: string

record chat_request =
  model :: string
  messages :: "chat_message list"
  max_tokens :: nat

text \<open>
  A response of the chat-completion API, as far as the code reads it: the list
  \<^verbatim>\<open>response.choices\<close>, each choice given by its \<^verbatim>\<open>message.content\<close>
  (\<open>None\<close> when the message carries no text).
\<close>

type_synonym chat_response = "string option list"

text \<open>
  The services the class calls and does not define:
  \<^item> \<open>rand n\<close> is the value of the \<open>n\<close>-th call of \<^verbatim>\<open>random.random()\<close>;
  \<^item> \<open>polarity t\<close> is \<^verbatim>\<open>TextBlob(t).sentiment.polarity\<close>, or the exception it raises;
  \<^item> \<open>chat n r\<close> is what the \<open>n\<close>-th call of \<^verbatim>\<open>openai.chat.completions.create\<close>
    gives for the request \<open>r\<close>, or the exception it raises;
  \<^item> \<open>float_repr\<close> and \<open>str_repr\<close> are Python's \<^verbatim>\<open>repr\<close> of a float and of a
    string.
\<close>

record env =
  rand :: "nat \<Rightarrow> rat"
  polarity :: "string \<Rightarrow> exn + rat"
  chat :: "nat \<Rightarrow> chat_request \<Rightarrow> exn + chat_response"
  float_repr :: "rat \<Rightarrow> string"
  str_repr :: "string \<Rightarrow> string"

text \<open>
  What a run leaves behind, in order: the entry into each method the tracer decorates,
  each request sent to the chat-completion API, and each line printed.
\<close>

datatype event =
    FinancialAdvisorAgent string string
  | FetchStockData string
  | FetchNewsArticles string
  | AnalyzeSentiment string
  | FetchEconomicIndicators
  | AnalyzeMarketConditions
  | GenerateInvestmentRecommendation
  | ChatCompletion chat_request
  | ExecuteBuyOrder string
  | ExecuteSellOrder string
  | Print string

text \<open>
  The state: the three fields of the object, how many random numbers and API calls have
  been consumed, and the events so far.
\<close>

record sys =
  stock_data :: pyval
  news_sentiment :: pyval
  economic_indicators :: pyval
  rng_pos :: nat
  api_pos :: nat
  trace :: "event list"

type_synonym 'a m = "sys \<Rightarrow> (exn + 'a) \<times> sys"

definition ret :: "'a \<Rightarrow> 'a m" where
  "ret x s = (Inr x, s)"

definition lift :: "exn + 'a \<Rightarrow> 'a m" where
  "lift r s = (r, s)"

definition bind_m :: "'a m \<Rightarrow> ('a \<Rightarrow> 'b m) \<Rightarrow> 'b m" where
  "bind_m f g s = (case f s of (Inl e, s') \<Rightarrow> (Inl e, s') | (Inr x, s') \<Rightarrow> g x s')"

definition seq_m :: "unit m \<Rightarrow> 'b m \<Rightarrow> 'b m" where
  "seq_m f g = bind_m f (\<lambda>_. g)"

definition emit :: "event \<Rightarrow> unit m" where
  "emit e s = (Inr (), s\<lparr>trace := trace s @ [e]\<rparr>)"

definition read_field :: "(sys \<Rightarrow> 'a) \<Rightarrow> 'a m" where
  "read_field f s = (Inr (f s), s)"

definition modify :: "(sys \<Rightarrow> sys) \<Rightarrow> unit m" where
  "modify f s = (Inr (), f s)"

fun map_m :: "('a \<Rightarrow> 'b m) \<Rightarrow> 'a list \<Rightarrow> 'b list m" where
  "map_m f [] = ret []"
| "map_m f (x # xs) = bind_m (f x) (\<lambda>y. bind_m (map_m f xs) (\<lambda>ys. ret (y # ys)))"

section \<open>Python built-ins the class uses\<close>

definition NL :: string where
  "NL = [CHR 0x0A]"

definition py_print :: "string \<Rightarrow> unit m" where
  "py_print line = emit (Print line)"

text \<open>Rounding to the nearest integer, a tie to the even one.\<close>

definition round_half_even :: "rat \<Rightarrow> int" where
  "round_half_even y =
     (let f = \<lfloor>y\<rfloor>; d = y - of_int f
      in if d < 1 / 2 then f else if 1 / 2 < d then f + 1 else if even f then f else f + 1)"

text \<open>
  The binary exponent of a positive number: \<open>2 powi expo x \<le> x < 2 powi (expo x + 1)\<close>
  (lemma \<open>expo_bounds\<close>). A binary64 number has 53 significant bits, so the numbers
  around \<open>x\<close> are the multiples of \<open>2 powi (expo \<bar>x\<bar> - 52)\<close>, and of \<open>2 powi (- 1074)\<close>
  in the subnormal range. \<open>rnd64 x\<close> is the nearest of them.
\<close>

definition expo :: "rat \<Rightarrow> int" where
  "expo x =
     (if 1 \<le> x then bitlen \<lfloor>x\<rfloor> - 1
      else let j = bitlen \<lfloor>1 / x\<rfloor> - 1
           in if x * 2 ^ nat j = 1 then - j else - j - 1)"

definition ulp_exp :: "rat \<Rightarrow> int" where
  "ulp_exp x = max (expo \<bar>x\<bar> - 52) (- 1074)"

definition rnd64 :: "rat \<Rightarrow> rat" where
  "rnd64 x =
     (if x = 0 then 0
      else of_int (round_half_even (x / 2 powi ulp_exp x)) * 2 powi ulp_exp x)"

text \<open>\<^verbatim>\<open>x + y\<close>, \<^verbatim>\<open>x * y\<close> and \<^verbatim>\<open>x / y\<close> on floats (an int operand is converted first).\<close>

definition fl_add :: "rat \<Rightarrow> rat \<Rightarrow> rat" where
  "fl_add x y = rnd64 (x + y)"

definition fl_mul :: "rat \<Rightarrow> rat \<Rightarrow> rat" where
  "fl_mul x y = rnd64 (x * y)"

definition fl_div :: "rat \<Rightarrow> rat \<Rightarrow> rat" where
  "fl_div x y = rnd64 (x / y)"

text \<open>
  \<^verbatim>\<open>random.uniform(a, b)\<close> is \<^verbatim>\<open>a + (b - a) * random()\<close>. The class calls it with int
  bounds, so \<^verbatim>\<open>b - a\<close> is an int subtraction; the product and the sum are float
  operations.
\<close>

definition uniform :: "env \<Rightarrow> int \<Rightarrow> int \<Rightarrow> rat m" where
  "uniform e a b s =
     (Inr (fl_add (of_int a) (fl_mul (of_int (b - a)) (rand e (rng_pos s)))),
      s\<lparr>rng_pos := Suc (rng_pos s)\<rparr>)"

text \<open>
  \<^verbatim>\<open>round(x, 2)\<close> on a float: the exact value of \<open>x\<close> is rounded to the nearest multiple
  of 1/100, a tie to the even one, and the float nearest to that decimal is returned.
\<close>

definition round2 :: "rat \<Rightarrow> rat" where
  "round2 x = rnd64 (of_int (round_half_even (x * 100)) / 100)"

text \<open>
  \<^verbatim>\<open>sum(xs)\<close> starts at the int 0 and adds from the left (Python 3.11, the kernel of the
  notebook); \<^verbatim>\<open>a / n\<close> raises on 0.
\<close>

definition py_sum :: "rat list \<Rightarrow> rat" where
  "py_sum xs = foldl fl_add 0 xs"

definition py_div :: "rat \<Rightarrow> nat \<Rightarrow> exn + rat" where
  "py_div a n = (if n = 0 then Inl ZeroDivisionError else Inr (fl_div a (of_nat n)))"

text \<open>\<^verbatim>\<open>d[k]\<close>: a missing key raises, and a float or a string has no string keys.\<close>

definition getitem :: "pyval \<Rightarrow> string \<Rightarrow> exn + atom" where
  "getitem d k =
     (case d of
        Atom _ \<Rightarrow> Inl TypeError
      | Dict kvs \<Rightarrow> (case map_of kvs k of None \<Rightarrow> Inl (KeyError k) | Some v \<Rightarrow> Inr v))"

text \<open>
  \<^verbatim>\<open>str(v)\<close>, which an f-string applies to each field: a string is itself, a float is
  its \<^verbatim>\<open>repr\<close>, a dict lists \<^verbatim>\<open>repr(key): repr(value)\<close>.
\<close>

definition atom_str :: "env \<Rightarrow> atom \<Rightarrow> string" where
  "atom_str e a = (case a of Str t \<Rightarrow> t | Num x \<Rightarrow> float_repr e x)"

definition atom_repr :: "env \<Rightarrow> atom \<Rightarrow> string" where
  "atom_repr e a = (case a of Str t \<Rightarrow> str_repr e t | Num x \<Rightarrow> float_repr e x)"

fun join :: "string \<Rightarrow> string list \<Rightarrow> string" where
  "join sep [] = []"
| "join sep [x] = x"
| "join sep (x # y # ys) = x @ sep @ join sep (y # ys)"

definition py_str :: "env \<Rightarrow> pyval \<Rightarrow> string" where
  "py_str e v =
     (case v of
        Atom a \<Rightarrow> atom_str e a
      | Dict kvs \<Rightarrow>
          ''{'' @ join '', '' (map (\<lambda>(k, a). str_repr e k @ '': '' @ atom_repr e a) kvs) @ ''}'')"

text \<open>
  \<^verbatim>\<open>s.lower()\<close> on the bytes: the letters A to Z go to a to z. No character outside
  ASCII lowers to one of the letters of buy or sell, and UTF-8 never spells an ASCII
  letter inside another character, so the two membership tests of \<^verbatim>\<open>run_analysis\<close>
  give on the bytes what Python gives on the characters.
\<close>

definition lower_char :: "char \<Rightarrow> char" where
  "lower_char c =
     (case map_of (zip ''ABCDEFGHIJKLMNOPQRSTUVWXYZ'' ''abcdefghijklmnopqrstuvwxyz'') c of
        None \<Rightarrow> c
      | Some l \<Rightarrow> l)"

definition lower :: "string \<Rightarrow> string" where
  "lower t = map lower_char t"

text \<open>\<^verbatim>\<open>needle in hay\<close> for strings: \<open>needle\<close> occurs as a contiguous run.\<close>

fun starts_with :: "string \<Rightarrow> string \<Rightarrow> bool" where
  "starts_with [] hay = True"
| "starts_with (n # ns) [] = False"
| "starts_with (n # ns) (h # hs) = (n = h \<and> starts_with ns hs)"

fun contains :: "string \<Rightarrow> string \<Rightarrow> bool" where
  "contains needle [] = (needle = [])"
| "contains needle (h # hs) = (starts_with needle (h # hs) \<or> contains needle hs)"

text \<open>
  \<^verbatim>\<open>s.strip()\<close> drops the white space at both ends. The white space of ASCII is
  the characters 9 to 13, 28 to 31 and the blank; beyond ASCII it is U+0085, U+00A0,
  U+1680, U+2000 to U+200A, U+2028, U+2029, U+202F, U+205F and U+3000, which UTF-8
  writes with two or three bytes. Text that is valid UTF-8 ends with one of these byte
  sequences only when its last character is that white space.
\<close>

definition is_space :: "char \<Rightarrow> bool" where
  "is_space c = (let n = (of_char c :: nat) in (9 \<le> n \<and> n \<le> 13) \<or> (28 \<le> n \<and> n \<le> 32))"

definition is_space2 :: "char \<Rightarrow> char \<Rightarrow> bool" where
  "is_space2 a b =
     (let x = (of_char a :: nat); y = (of_char b :: nat)
      in x = 0xC2 \<and> (y = 0x85 \<or> y = 0xA0))"

definition is_space3 :: "char \<Rightarrow> char \<Rightarrow> char \<Rightarrow> bool" where
  "is_space3 a b c =
     (let x = (of_char a :: nat); y = (of_char b :: nat); z = (of_char c :: nat)
      in (x = 0xE1 \<and> y = 0x9A \<and> z = 0x80)
       \<or> (x = 0xE2 \<and> y = 0x80
            \<and> ((0x80 \<le> z \<and> z \<le> 0x8A) \<or> z = 0xA8 \<or> z = 0xA9 \<or> z = 0xAF))
       \<or> (x = 0xE2 \<and> y = 0x81 \<and> z = 0x9F)
       \<or> (x = 0xE3 \<and> y = 0x80 \<and> z = 0x80))"

fun lstrip :: "string \<Rightarrow> string" where
  "lstrip (a # b # c # t) =
     (if is_space a then lstrip (b # c # t)
      else if is_space2 a b then lstrip (c # t)
      else if is_space3 a b c then lstrip t
      else a # b # c # t)"
| "lstrip [a, b] = (if is_space a then lstrip [b] else if is_space2 a b then [] else [a, b])"
| "lstrip [a] = (if is_space a then [] else [a])"
| "lstrip [] = []"

text \<open>The same from the end, on the reversed text: \<open>c\<close> is the last byte.\<close>

fun rstrip_rev :: "string \<Rightarrow> string" where
  "rstrip_rev (c # b # a # t) =
     (if is_space c then rstrip_rev (b # a # t)
      else if is_space2 b c then rstrip_rev (a # t)
      else if is_space3 a b c then rstrip_rev t
      else c # b # a # t)"
| "rstrip_rev [c, b] = (if is_space c then rstrip_rev [b] else if is_space2 b c then [] else [c, b])"
| "rstrip_rev [c] = (if is_space c then [] else [c])"
| "rstrip_rev [] = []"

definition strip :: "string \<Rightarrow> string" where
  "strip t = rev (rstrip_rev (rev (lstrip t)))"

section \<open>The class FinancialAnalysisSystem\<close>

definition init :: sys where
  "init = \<lparr>stock_data = Dict [], news_sentiment = Dict [], economic_indicators = Dict [],
           rng_pos = 0, api_pos = 0, trace = []\<rparr>"

definition fetch_stock_data :: "env \<Rightarrow> string \<Rightarrow> pyval m" where
  "fetch_stock_data e symbol =
     seq_m (emit (FetchStockData symbol))
       (bind_m (uniform e 50 500) (\<lambda>p.
        bind_m (uniform e (- 5) 5) (\<lambda>c.
        ret (Dict [(''symbol'', Str symbol),
                   (''price'', Num (round2 p)),
                   (''change'', Num (round2 c))]))))"

definition fetch_news_articles :: "string \<Rightarrow> string list m" where
  "fetch_news_articles company =
     seq_m (emit (FetchNewsArticles company))
       (ret [company @ '' announces new product line'',
             company @ '' reports quarterly earnings'',
             company @ '' faces regulatory scrutiny''])"

definition analyze_sentiment :: "env \<Rightarrow> string \<Rightarrow> rat m" where
  "analyze_sentiment e text = seq_m (emit (AnalyzeSentiment text)) (lift (polarity e text))"

definition fetch_economic_indicators :: "env \<Rightarrow> pyval m" where
  "fetch_economic_indicators e =
     seq_m (emit FetchEconomicIndicators)
       (bind_m (uniform e (- 2) 5) (\<lambda>g.
        bind_m (uniform e 3 10) (\<lambda>u.
        bind_m (uniform e 0 5) (\<lambda>i.
        ret (Dict [(''gdp_growth'', Num (round2 g)),
                   (''unemployment_rate'', Num (round2 u)),
                   (''inflation_rate'', Num (round2 i))])))))"

text \<open>\<^verbatim>\<open>openai.chat.completions.create(...)\<close>: the request is sent, then answered.\<close>

definition chat_create :: "env \<Rightarrow> chat_request \<Rightarrow> chat_response m" where
  "chat_create e r =
     seq_m (emit (ChatCompletion r))
       (\<lambda>s. (chat e (api_pos s) r, s\<lparr>api_pos := Suc (api_pos s)\<rparr>))"

text \<open>\<^verbatim>\<open>response.choices[0].message.content.strip()\<close>\<close>

definition first_content :: "chat_response \<Rightarrow> exn + string" where
  "first_content r =
     (case r of
        [] \<Rightarrow> Inl IndexError
      | None # _ \<Rightarrow> Inl AttributeError
      | Some t # _ \<Rightarrow> Inr (strip t))"

definition indent :: string where
  "indent = ''        ''"

definition market_prompt :: "env \<Rightarrow> pyval \<Rightarrow> pyval \<Rightarrow> pyval \<Rightarrow> exn + string" where
  "market_prompt e sd sentiment ei =
     (case getitem sd ''symbol'' of Inl x \<Rightarrow> Inl x | Inr symb \<Rightarrow>
     (case getitem sd ''price'' of Inl x \<Rightarrow> Inl x | Inr price \<Rightarrow>
     (case getitem sd ''change'' of Inl x \<Rightarrow> Inl x | Inr change \<Rightarrow>
     (case getitem ei ''gdp_growth'' of Inl x \<Rightarrow> Inl x | Inr gdp \<Rightarrow>
     (case getitem ei ''unemployment_rate'' of Inl x \<Rightarrow> Inl x | Inr unemp \<Rightarrow>
     (case getitem ei ''inflation_rate'' of Inl x \<Rightarrow> Inl x | Inr infl \<Rightarrow>
      Inr (NL @ indent
           @ ''Analyze the following market conditions and provide a brief market outlook:''
           @ NL @ indent @ ''Stock: '' @ atom_str e symb @ '' at $'' @ atom_str e price
           @ '' (change: '' @ atom_str e change @ ''%)''
           @ NL @ indent @ ''News Sentiment: '' @ py_str e sentiment
           @ NL @ indent @ ''Economic Indicators:''
           @ NL @ indent @ ''- GDP Growth: '' @ atom_str e gdp @ ''%''
           @ NL @ indent @ ''- Unemployment Rate: '' @ atom_str e unemp @ ''%''
           @ NL @ indent @ ''- Inflation Rate: '' @ atom_str e infl @ ''%''
           @ NL @ indent)))))))"

definition analyze_market_conditions :: "env \<Rightarrow> pyval \<Rightarrow> pyval \<Rightarrow> pyval \<Rightarrow> string m" where
  "analyze_market_conditions e sd sentiment ei =
     seq_m (emit AnalyzeMarketConditions)
       (bind_m (lift (market_prompt e sd sentiment ei)) (\<lambda>prompt.
        bind_m (chat_create e
                  \<lparr>model = ''gpt-4-0125-preview'',
                   messages = [\<lparr>role = ''user'', content = prompt\<rparr>],
                   max_tokens = 150\<rparr>) (\<lambda>response.
        lift (first_content response))))"

definition recommendation_prompt :: "string \<Rightarrow> string \<Rightarrow> string" where
  "recommendation_prompt market_outlook risk_tolerance =
     NL @ indent @ ''Based on the following market outlook and investor risk tolerance,''
     @ NL @ indent @ ''provide a specific investment recommendation:''
     @ NL @ indent @ ''Market Outlook: '' @ market_outlook
     @ NL @ indent @ ''Investor Risk Tolerance: '' @ risk_tolerance
     @ NL @ indent"

definition generate_investment_recommendation :: "env \<Rightarrow> string \<Rightarrow> string \<Rightarrow> string m" where
  "generate_investment_recommendation e market_outlook risk_tolerance =
     seq_m (emit GenerateInvestmentRecommendation)
       (bind_m (ret (recommendation_prompt market_outlook risk_tolerance)) (\<lambda>prompt.
        bind_m (chat_create e
                  \<lparr>model = ''gpt-4-0125-preview'',
                   messages = [\<lparr>role = ''user'', content = prompt\<rparr>],
                   max_tokens = 200\<rparr>) (\<lambda>response.
        lift (first_content response))))"

definition financial_advisor_agent :: "env \<Rightarrow> string \<Rightarrow> string \<Rightarrow> string m" where
  "financial_advisor_agent e stock_symbol risk_tolerance =
     seq_m (emit (FinancialAdvisorAgent stock_symbol risk_tolerance))
       (bind_m (fetch_stock_data e stock_symbol) (\<lambda>sd.
        seq_m (modify (\<lambda>s. s\<lparr>stock_data := sd\<rparr>))
       (bind_m (fetch_news_articles stock_symbol) (\<lambda>news_articles.
        bind_m (map_m (analyze_sentiment e) news_articles) (\<lambda>sentiment_scores.
        bind_m (lift (py_div (py_sum sentiment_scores) (length sentiment_scores))) (\<lambda>avg.
        seq_m (modify (\<lambda>s. s\<lparr>news_sentiment := Atom (Num avg)\<rparr>))
       (bind_m (fetch_economic_indicators e) (\<lambda>ei.
        seq_m (modify (\<lambda>s. s\<lparr>economic_indicators := ei\<rparr>))
       (bind_m (read_field (\<lambda>s. (stock_data s, news_sentiment s, economic_indicators s)))
          (\<lambda>(sd', ns', ei').
        bind_m (analyze_market_conditions e sd' ns' ei') (\<lambda>market_outlook.
        bind_m (generate_investment_recommendation e market_outlook risk_tolerance)
          (\<lambda>recommendation.
        ret recommendation))))))))))))"

definition execute_buy_order :: "string \<Rightarrow> unit m" where
  "execute_buy_order symbol =
     seq_m (emit (ExecuteBuyOrder symbol)) (py_print (''Executing buy order for '' @ symbol))"

definition execute_sell_order :: "string \<Rightarrow> unit m" where
  "execute_sell_order symbol =
     seq_m (emit (ExecuteSellOrder symbol)) (py_print (''Executing sell order for '' @ symbol))"

definition run_analysis :: "env \<Rightarrow> string \<Rightarrow> string \<Rightarrow> unit m" where
  "run_analysis e stock_symbol risk_tolerance =
     bind_m (financial_advisor_agent e stock_symbol risk_tolerance) (\<lambda>recommendation.
     seq_m (py_print (NL @ ''Analysis for '' @ stock_symbol @ '':''))
    (bind_m (read_field stock_data) (\<lambda>sd.
     seq_m (py_print (''Stock Data: '' @ py_str e sd))
    (bind_m (read_field news_sentiment) (\<lambda>ns.
     seq_m (py_print (''News Sentiment: '' @ py_str e ns))
    (bind_m (read_field economic_indicators) (\<lambda>ei.
     seq_m (py_print (''Economic Indicators: '' @ py_str e ei))
    (seq_m (py_print (NL @ ''Investment Recommendation:'' @ NL @ recommendation))
    (if contains ''buy'' (lower recommendation) then execute_buy_order stock_symbol
     else if contains ''sell'' (lower recommendation) then execute_sell_order stock_symbol
     else py_print ''No action taken based on the current recommendation.'')))))))))"

section \<open>Reading a run\<close>

text \<open>The lines a list of events printed, the requests it sent, the orders it placed.\<close>

fun printed :: "event list \<Rightarrow> string list" where
  "printed [] = []"
| "printed (Print l # evs) = l # printed evs"
| "printed (_ # evs) = printed evs"

fun requests :: "event list \<Rightarrow> chat_request list" where
  "requests [] = []"
| "requests (ChatCompletion r # evs) = r # requests evs"
| "requests (_ # evs) = requests evs"

fun is_order :: "event \<Rightarrow> bool" where
  "is_order (ExecuteBuyOrder _) = True"
| "is_order (ExecuteSellOrder _) = True"
| "is_order _ = False"

definition orders :: "event list \<Rightarrow> event list" where
  "orders evs = filter is_order evs"

text \<open>
  The three branches of the \<^verbatim>\<open>if\<close> of \<^verbatim>\<open>run_analysis\<close> each leave one mark: the
  entry into \<^verbatim>\<open>execute_buy_order\<close>, the entry into \<^verbatim>\<open>execute_sell_order\<close>, or
  the no-action line.
\<close>

fun is_outcome :: "event \<Rightarrow> bool" where
  "is_outcome (ExecuteBuyOrder _) = True"
| "is_outcome (ExecuteSellOrder _) = True"
| "is_outcome (Print l) = (l = ''No action taken based on the current recommendation.'')"
| "is_outcome _ = False"

definition outcomes :: "event list \<Rightarrow> event list" where
  "outcomes evs = filter is_outcome evs"

text \<open>
  The events one call of \<^verbatim>\<open>run_analysis\<close> adds, those its call of
  \<^verbatim>\<open>financial_advisor_agent\<close> adds, and the operations they are.
\<close>

definition run_events :: "env \<Rightarrow> string \<Rightarrow> string \<Rightarrow> sys \<Rightarrow> event list" where
  "run_events e stock_symbol risk_tolerance s =
     drop (length (trace s)) (trace (snd (run_analysis e stock_symbol risk_tolerance s)))"

definition agent_events :: "env \<Rightarrow> string \<Rightarrow> string \<Rightarrow> sys \<Rightarrow> event list" where
  "agent_events e stock_symbol risk_tolerance s =
     drop (length (trace s)) (trace (snd (financial_advisor_agent e stock_symbol risk_tolerance s)))"

fun op_name :: "event \<Rightarrow> string" where
  "op_name (FinancialAdvisorAgent _ _) = ''financial_advisor_agent''"
| "op_name (FetchStockData _) = ''fetch_stock_data''"
| "op_name (FetchNewsArticles _) = ''fetch_news_articles''"
| "op_name (AnalyzeSentiment _) = ''analyze_sentiment''"
| "op_name FetchEconomicIndicators = ''fetch_economic_indicators''"
| "op_name AnalyzeMarketConditions = ''analyze_market_conditions''"
| "op_name GenerateInvestmentRecommendation = ''generate_investment_recommendation''"
| "op_name (ChatCompletion _) = ''chat.completions.create''"
| "op_name (ExecuteBuyOrder _) = ''execute_buy_order''"
| "op_name (ExecuteSellOrder _) = ''execute_sell_order''"
| "op_name (Print _) = ''print''"

definition steps :: "env \<Rightarrow> string \<Rightarrow> string \<Rightarrow> sys \<Rightarrow> string list" where
  "steps e stock_symbol risk_tolerance s = map op_name (run_events e stock_symbol risk_tolerance s)"

text \<open>The operations of \<^verbatim>\<open>financial_advisor_agent\<close> in the order the method makes them.\<close>

definition agent_steps :: "string list" where
  "agent_steps =
     [''financial_advisor_agent'', ''fetch_stock_data'', ''fetch_news_articles'',
      ''analyze_sentiment'', ''analyze_sentiment'', ''analyze_sentiment'',
      ''fetch_economic_indicators'',
      ''analyze_market_conditions'', ''chat.completions.create'',
      ''generate_investment_recommendation'', ''chat.completions.create'']"

definition report_steps :: "string list" where
  "report_steps = [''print'', ''print'', ''print'', ''print'', ''print'']"

text \<open>
  The shape of a request to the chat-completion API: the model identifier, exactly one
  message, of role user, and one of the two token caps.
\<close>

definition well_formed_request :: "chat_request \<Rightarrow> bool" where
  "well_formed_request r =
     (model r = ''gpt-4-0125-preview''
      \<and> map role (messages r) = [''user'']
      \<and> (max_tokens r = 150 \<or> max_tokens r = 200))"

text \<open>
  The run started in \<open>s\<close> gets a score for each of the three headlines, and \<open>p\<close> is the
  prompt it builds from the records it fetched and the average of the scores: the
  content of its first request.
\<close>

definition prompt_built :: "env \<Rightarrow> string \<Rightarrow> sys \<Rightarrow> string \<Rightarrow> bool" where
  "prompt_built e stock_symbol s p =
     (\<exists>a b c sd ei.
        polarity e (stock_symbol @ '' announces new product line'') = Inr a
        \<and> polarity e (stock_symbol @ '' reports quarterly earnings'') = Inr b
        \<and> polarity e (stock_symbol @ '' faces regulatory scrutiny'') = Inr c
        \<and> fst (fetch_stock_data e stock_symbol s) = Inr sd
        \<and> fst (fetch_economic_indicators e (s\<lparr>rng_pos := Suc (Suc (rng_pos s))\<rparr>)) = Inr ei
        \<and> market_prompt e sd (Atom (Num (fl_div (py_sum [a, b, c]) 3))) ei = Inr p)"

text \<open>
  A run fails with \<open>x\<close> when \<^verbatim>\<open>run_analysis\<close> raises \<open>x\<close> having printed nothing
  and placed no order.
\<close>

definition fails_with :: "env \<Rightarrow> string \<Rightarrow> string \<Rightarrow> sys \<Rightarrow> exn \<Rightarrow> bool" where
  "fails_with e stock_symbol risk_tolerance s x =
     (fst (run_analysis e stock_symbol risk_tolerance s) = Inl x
      \<and> printed (run_events e stock_symbol risk_tolerance s) = []
      \<and> orders (run_events e stock_symbol risk_tolerance s) = [])"

text \<open>
  A float with two decimal places: the float nearest to a whole number of hundredths,
  which is what \<^verbatim>\<open>round(x, 2)\<close> returns.
\<close>

definition two_decimals :: "rat \<Rightarrow> bool" where
  "two_decimals x = (\<exists>k::int. x = rnd64 (of_int k / 100))"

text \<open>
  An operation depends on the random numbers (on the hosted model) when changing only
  them can change what it returns.
\<close>

definition depends_on_random :: "(env \<Rightarrow> 'a m) \<Rightarrow> bool" where
  "depends_on_random f = (\<exists>e r s. fst (f (e\<lparr>rand := r\<rparr>) s) \<noteq> fst (f e s))"

definition depends_on_model :: "(env \<Rightarrow> 'a m) \<Rightarrow> bool" where
  "depends_on_model f = (\<exists>e c s. fst (f (e\<lparr>chat := c\<rparr>) s) \<noteq> fst (f e s))"

section \<open>Sample services\<close>

text \<open>
  Services for running the class on concrete inputs: every random number is 1/2, every
  headline scores 1/4, and the model answers the first kind of request with an outlook
  and the second with a recommendation that names both keywords. The two \<^verbatim>\<open>repr\<close>
  functions are stand-ins (every float shows as 0.5, a string in single quotes); they
  only shape the text of prompts and printed lines.
\<close>

definition demo_env :: env where
  "demo_env =
     \<lparr>rand = (\<lambda>n. 1 / 2),
      polarity = (\<lambda>t. Inr (1 / 4)),
      chat = (\<lambda>n r. Inr [Some (if max_tokens r = 150 then '' Stable. '' else '' Buy now, SELL later. '')]),
      float_repr = (\<lambda>x. ''0.5''),
      str_repr = (\<lambda>t. [CHR 0x27] @ t @ [CHR 0x27])\<rparr>"

text \<open>
  The model padding its answer with white space beyond ASCII (a no-break space before,
  an ideographic space after); the sentiment library scoring the three headlines of
  AAPL 0.1, 0.2 and 0.3.
\<close>

definition padded_env :: env where
  "padded_env =
     demo_env\<lparr>chat :=
       (\<lambda>n r. Inr [Some ([CHR 0xC2, CHR 0xA0] @ ''Buy'' @ [CHR 0xE3, CHR 0x80, CHR 0x80])])\<rparr>"

definition tenths_env :: env where
  "tenths_env =
     demo_env\<lparr>polarity :=
       (\<lambda>t. if t = ''AAPL announces new product line'' then Inr (rnd64 (1 / 10))
            else if t = ''AAPL reports quarterly earnings'' then Inr (rnd64 (2 / 10))
            else Inr (rnd64 (3 / 10)))\<rparr>"

text \<open>The same services with the sentiment library, or the API, out of order.\<close>

definition no_sentiment_env :: env where
  "no_sentiment_env = demo_env\<lparr>polarity := (\<lambda>t. Inl (ExternalError ''corpus not found''))\<rparr>"

definition no_api_env :: env where
  "no_api_env = demo_env\<lparr>chat := (\<lambda>n r. Inl (ExternalError ''rate limit''))\<rparr>"

definition hold_env :: env where
  "hold_env = demo_env\<lparr>chat := (\<lambda>n r. Inr [Some ''Hold.''])\<rparr>"

definition sell_env :: env where
  "sell_env = demo_env\<lparr>chat := (\<lambda>n r. Inr [Some ''Time to Sell.''])\<rparr>"

text \<open>
  The sentiment library failing on one headline only; the API answering without a
  choice, or without text from its second call on, or failing from its second call on.
\<close>

definition no_score_env :: "string \<Rightarrow> env" where
  "no_score_env headline =
     demo_env\<lparr>polarity :=
       (\<lambda>t. if t = headline then Inl (ExternalError ''corpus not found'') else Inr (1 / 4))\<rparr>"

definition no_choice_env :: env where
  "no_choice_env = demo_env\<lparr>chat := (\<lambda>n r. Inr [])\<rparr>"

definition one_answer_env :: env where
  "one_answer_env =
     demo_env\<lparr>chat := (\<lambda>n r. if n = 0 then Inr [Some '' Stable. ''] else Inr [None])\<rparr>"

definition one_call_env :: env where
  "one_call_env =
     demo_env\<lparr>chat :=
       (\<lambda>n r. if n = 0 then Inr [Some '' Stable. ''] else Inl (ExternalError ''rate limit''))\<rparr>"

section \<open>Unfolding the methods\<close>

lemmas monad_defs = ret_def lift_def bind_m_def seq_m_def emit_def read_field_def modify_def
  py_print_def uniform_def chat_create_def

lemmas method_defs = fetch_stock_data_def fetch_news_articles_def analyze_sentiment_def
  fetch_economic_indicators_def analyze_market_conditions_def
  generate_investment_recommendation_def execute_buy_order_def execute_sell_order_def

lemmas agent_unfold = financial_advisor_agent_def method_defs monad_defs py_div_def

lemma printed_append: "printed (xs @ ys) = printed xs @ printed ys"
  by (induction xs rule: printed.induct) simp_all

lemma requests_append: "requests (xs @ ys) = requests xs @ requests ys"
  by (induction xs rule: requests.induct) simp_all

lemma starts_with_prefix: "starts_with n h = prefix n h"
  by (induction n h rule: starts_with.induct) simp_all

lemma contains_sublist: "contains n h = sublist n h"
  by (induction h) (simp_all add: starts_with_prefix sublist_Cons_right)

lemma fetch_news_articles_eq:
  "fetch_news_articles company s =
     (Inr [company @ '' announces new product line'',
           company @ '' reports quarterly earnings'',
           company @ '' faces regulatory scrutiny''],
      s\<lparr>trace := trace s @ [FetchNewsArticles company]\<rparr>)"
  by (simp add: fetch_news_articles_def monad_defs)

text \<open>The two records \<^verbatim>\<open>financial_advisor_agent\<close> builds have every key the prompt reads.\<close>

lemma market_prompt_ok [simp]:
  "market_prompt e (Dict [(''symbol'', a), (''price'', b), (''change'', c)]) v
     (Dict [(''gdp_growth'', g), (''unemployment_rate'', u), (''inflation_rate'', i)]) \<noteq> Inl x"
  by (simp add: market_prompt_def getitem_def)

subsection \<open>The events of the agent\<close>

lemma agent_events_props:
  "\<exists>evs. trace (snd (financial_advisor_agent e sy risk s)) = trace s @ evs
      \<and> printed evs = [] \<and> orders evs = [] \<and> outcomes evs = []
      \<and> prefix (map op_name evs) agent_steps
      \<and> (case fst (financial_advisor_agent e sy risk s) of
            Inl _ \<Rightarrow> True | Inr _ \<Rightarrow> map op_name evs = agent_steps)"
  by (simp add: agent_unfold orders_def outcomes_def agent_steps_def split: sum.splits)

lemma agent_trace:
  "trace (snd (financial_advisor_agent e sy risk s)) = trace s @ agent_events e sy risk s"
  using agent_events_props [of e sy risk s] by (auto simp: agent_events_def)

lemma agent_quiet:
  "printed (agent_events e sy risk s) = []"
  "orders (agent_events e sy risk s) = []"
  "outcomes (agent_events e sy risk s) = []"
  using agent_events_props [of e sy risk s] by (auto simp: agent_events_def)

lemma agent_steps_prefix: "prefix (map op_name (agent_events e sy risk s)) agent_steps"
  using agent_events_props [of e sy risk s] by (auto simp: agent_events_def)

lemma agent_steps_full:
  "fst (financial_advisor_agent e sy risk s) = Inr r \<Longrightarrow>
   map op_name (agent_events e sy risk s) = agent_steps"
  using agent_events_props [of e sy risk s] by (auto simp: agent_events_def)

lemma agent_stock_data:
  "fst (fetch_stock_data e sy s) = Inr (stock_data (snd (financial_advisor_agent e sy risk s)))"
  by (simp add: agent_unfold split: sum.splits)

subsection \<open>After the agent\<close>

lemma run_analysis_raises:
  assumes "fst (financial_advisor_agent e sy risk s) = Inl x"
  shows "run_analysis e sy risk s = (Inl x, snd (financial_advisor_agent e sy risk s))"
proof -
  obtain a b where ab: "financial_advisor_agent e sy risk s = (a, b)"
    by (cases "financial_advisor_agent e sy risk s")
  with assms have "a = Inl x" by simp
  with ab show ?thesis by (simp add: run_analysis_def bind_m_def)
qed

lemma run_analysis_returns:
  assumes "fst (financial_advisor_agent e sy risk s) = Inr r"
  shows "run_analysis e sy risk s =
     (Inr (),
      (snd (financial_advisor_agent e sy risk s))
        \<lparr>trace := trace (snd (financial_advisor_agent e sy risk s))
           @ [Print (NL @ ''Analysis for '' @ sy @ '':''),
              Print (''Stock Data: ''
                     @ py_str e (stock_data (snd (financial_advisor_agent e sy risk s)))),
              Print (''News Sentiment: ''
                     @ py_str e (news_sentiment (snd (financial_advisor_agent e sy risk s)))),
              Print (''Economic Indicators: ''
                     @ py_str e (economic_indicators (snd (financial_advisor_agent e sy risk s)))),
              Print (NL @ ''Investment Recommendation:'' @ NL @ r)]
           @ (if contains ''buy'' (lower r)
              then [ExecuteBuyOrder sy, Print (''Executing buy order for '' @ sy)]
              else if contains ''sell'' (lower r)
              then [ExecuteSellOrder sy, Print (''Executing sell order for '' @ sy)]
              else [Print ''No action taken based on the current recommendation.''])\<rparr>)"
proof -
  obtain a b where ab: "financial_advisor_agent e sy risk s = (a, b)"
    by (cases "financial_advisor_agent e sy risk s")
  with assms have "a = Inr r" by simp
  with ab show ?thesis
    by (simp add: run_analysis_def execute_buy_order_def execute_sell_order_def monad_defs)
qed

lemma run_events_raises:
  "fst (financial_advisor_agent e sy risk s) = Inl x \<Longrightarrow>
   run_events e sy risk s = agent_events e sy risk s"
  by (simp add: run_events_def agent_events_def run_analysis_raises)

lemma run_events_returns:
  "fst (financial_advisor_agent e sy risk s) = Inr r \<Longrightarrow>
   run_events e sy risk s =
     agent_events e sy risk s
     @ [Print (NL @ ''Analysis for '' @ sy @ '':''),
        Print (''Stock Data: ''
               @ py_str e (stock_data (snd (financial_advisor_agent e sy risk s)))),
        Print (''News Sentiment: ''
               @ py_str e (news_sentiment (snd (financial_advisor_agent e sy risk s)))),
        Print (''Economic Indicators: ''
               @ py_str e (economic_indicators (snd (financial_advisor_agent e sy risk s)))),
        Print (NL @ ''Investment Recommendation:'' @ NL @ r)]
     @ (if contains ''buy'' (lower r)
        then [ExecuteBuyOrder sy, Print (''Executing buy order for '' @ sy)]
        else if contains ''sell'' (lower r)
        then [ExecuteSellOrder sy, Print (''Executing sell order for '' @ sy)]
        else [Print ''No action taken based on the current recommendation.''])"
  by (simp add: run_events_def run_analysis_returns agent_trace)

lemma run_analysis_fst_raises:
  "fst (financial_advisor_agent e sy risk s) = Inl x \<Longrightarrow> fst (run_analysis e sy risk s) = Inl x"
  by (simp add: run_analysis_raises)

lemma run_analysis_fst_returns:
  "fst (financial_advisor_agent e sy risk s) = Inr r \<Longrightarrow> fst (run_analysis e sy risk s) = Inr ()"
  by (simp add: run_analysis_returns)

subsection \<open>The sample runs\<close>

lemma demo_agent_returns:
  "fst (financial_advisor_agent demo_env ''AAPL'' ''moderate'' init) = Inr ''Buy now, SELL later.''"
  by (simp add: agent_unfold demo_env_def init_def first_content_def strip_def is_space_def is_space2_def is_space3_def
      split: sum.splits)

lemma demo_keywords:
  "contains ''buy'' (lower ''Buy now, SELL later.'')"
  "contains ''sell'' (lower ''Buy now, SELL later.'')"
  by (simp_all add: lower_def lower_char_def)

lemma hold_agent_returns:
  "fst (financial_advisor_agent hold_env ''AAPL'' ''moderate'' init) = Inr ''Hold.''"
  by (simp add: agent_unfold hold_env_def demo_env_def init_def first_content_def strip_def
      is_space_def is_space2_def is_space3_def split: sum.splits)

lemma sell_agent_returns:
  "fst (financial_advisor_agent sell_env ''AAPL'' ''moderate'' init) = Inr ''Time to Sell.''"
  by (simp add: agent_unfold sell_env_def demo_env_def init_def first_content_def strip_def
      is_space_def is_space2_def is_space3_def split: sum.splits)

lemma no_sentiment_agent_raises:
  "fst (financial_advisor_agent no_sentiment_env ''AAPL'' ''moderate'' init)
     = Inl (ExternalError ''corpus not found'')"
  by (simp add: agent_unfold no_sentiment_env_def demo_env_def init_def)

lemma no_api_agent_raises:
  "fst (financial_advisor_agent no_api_env ''AAPL'' ''moderate'' init)
     = Inl (ExternalError ''rate limit'')"
  by (simp add: agent_unfold no_api_env_def demo_env_def init_def split: sum.splits)

section \<open>The headlines\<close>

text \<open>
  C10. \<^verbatim>\<open>fetch_news_articles\<close> is deterministic: whatever the state of the two calls,
  the same company gives the same value, a list of exactly three headlines, each of
  which begins with the company string.
\<close>

theorem fetch_news_articles_deterministic:
  "fst (fetch_news_articles company s1) = fst (fetch_news_articles company s2)
   \<and> (\<exists>h1 h2 h3. fst (fetch_news_articles company s1) = Inr [h1, h2, h3]
        \<and> prefix company h1 \<and> prefix company h2 \<and> prefix company h3)"
  by (simp add: fetch_news_articles_eq)

section \<open>Rounding to binary64\<close>

lemma round_half_even_of_int [simp]: "round_half_even (of_int m) = m"
  by (simp add: round_half_even_def)

lemma round_half_even_between:
  assumes "of_int lo \<le> y" and "y \<le> of_int hi"
  shows "lo \<le> round_half_even y \<and> round_half_even y \<le> hi"
proof -
  have lo: "lo \<le> \<lfloor>y\<rfloor>"
    using assms(1) by (simp add: le_floor_iff)
  have hi: "\<lfloor>y\<rfloor> \<le> hi"
    using assms(2) by (simp add: floor_le_iff)
  have up: "\<lfloor>y\<rfloor> + 1 \<le> hi" if "1 / 2 \<le> y - of_int \<lfloor>y\<rfloor>"
  proof -
    have "of_int \<lfloor>y\<rfloor> < (of_int hi :: rat)"
      using that assms(2) by linarith
    then show ?thesis by simp
  qed
  show ?thesis
    using lo hi up by (auto simp: round_half_even_def Let_def)
qed

lemma round_half_even_mono:
  assumes "x \<le> y"
  shows "round_half_even x \<le> round_half_even y"
proof (cases "\<lfloor>x\<rfloor> = \<lfloor>y\<rfloor>")
  case True
  with assms show ?thesis
    by (auto simp: round_half_even_def Let_def)
next
  case False
  with assms have "\<lfloor>x\<rfloor> + 1 \<le> \<lfloor>y\<rfloor>"
    using floor_mono [of x y] by linarith
  moreover have "round_half_even x \<le> \<lfloor>x\<rfloor> + 1"
    by (auto simp: round_half_even_def Let_def)
  moreover have "\<lfloor>y\<rfloor> \<le> round_half_even y"
    by (auto simp: round_half_even_def Let_def)
  ultimately show ?thesis by linarith
qed

lemma powi_neg: "0 \<le> n \<Longrightarrow> (2::rat) powi (- n) = 1 / 2 ^ nat n"
  by (simp add: power_int_def power_one_over)

lemma expo_bounds:
  assumes "0 < x"
  shows "2 powi expo x \<le> x \<and> x < 2 powi (expo x + 1)"
proof (cases "1 \<le> x")
  case True
  let ?m = "\<lfloor>x\<rfloor>"
  have m: "0 < ?m" using True by simp
  have b: "1 \<le> bitlen ?m"
    using m bitlen_eq_zero_iff [of ?m] bitlen_nonneg [of ?m] by linarith
  from bitlen_bounds [OF m]
  have lo: "2 ^ nat (bitlen ?m - 1) \<le> ?m" and hi: "?m < 2 ^ nat (bitlen ?m)" by simp_all
  have e: "expo x = bitlen ?m - 1" using True by (simp add: expo_def)
  have "(2::rat) powi (bitlen ?m - 1) = 2 ^ nat (bitlen ?m - 1)"
    using b by (simp add: power_int_def)
  also have "\<dots> = of_int (2 ^ nat (bitlen ?m - 1))" by simp
  also have "\<dots> \<le> of_int ?m" using lo by (simp only: of_int_le_iff)
  also have "\<dots> \<le> x" by simp
  finally have 1: "2 powi expo x \<le> x" by (simp add: e)
  have "?m + 1 \<le> 2 ^ nat (bitlen ?m)" using hi by simp
  then have "(of_int (?m + 1) :: rat) \<le> of_int (2 ^ nat (bitlen ?m))"
    by (simp only: of_int_le_iff)
  moreover have "x < of_int (?m + 1)" by simp linarith
  ultimately have "x < 2 ^ nat (bitlen ?m)" by simp
  also have "(2::rat) ^ nat (bitlen ?m) = 2 powi (bitlen ?m)"
    using b by (simp add: power_int_def)
  finally have 2: "x < 2 powi (expo x + 1)" by (simp add: e)
  from 1 2 show ?thesis ..
next
  case False
  then have x1: "x < 1" by simp
  let ?y = "1 / x"
  let ?m = "\<lfloor>?y\<rfloor>"
  let ?j = "bitlen ?m - 1"
  have y1: "1 \<le> ?y" using assms x1 by simp
  have m: "0 < ?m" using y1 by simp
  have b: "1 \<le> bitlen ?m"
    using m bitlen_eq_zero_iff [of ?m] bitlen_nonneg [of ?m] by linarith
  from bitlen_bounds [OF m]
  have lo: "2 ^ nat ?j \<le> ?m" and hi: "?m < 2 ^ nat (bitlen ?m)" by simp_all
  have p: "(2::rat) powi ?j = 2 ^ nat ?j" "(2::rat) powi (?j + 1) = 2 ^ nat (bitlen ?m)"
    using b by (simp_all add: power_int_def)
  have "(of_int (2 ^ nat ?j) :: rat) \<le> of_int ?m" using lo by (simp only: of_int_le_iff)
  also have "\<dots> \<le> ?y" by simp
  finally have ylo: "2 ^ nat ?j \<le> ?y" by simp
  have "?m + 1 \<le> 2 ^ nat (bitlen ?m)" using hi by simp
  then have "(of_int (?m + 1) :: rat) \<le> of_int (2 ^ nat (bitlen ?m))"
    by (simp only: of_int_le_iff)
  moreover have "?y < of_int (?m + 1)" by simp linarith
  ultimately have yhi: "?y < 2 ^ nat (bitlen ?m)" by simp
  have xhi: "x * 2 ^ nat ?j \<le> 1"
    using ylo assms by (simp add: field_simps)
  have xlo: "1 < x * 2 ^ nat (bitlen ?m)"
    using yhi assms by (simp add: field_simps)
  have q: "(2::rat) powi (- ?j) = 1 / 2 ^ nat ?j"
    "(2::rat) powi (- ?j - 1) = 1 / 2 ^ nat (bitlen ?m)"
  proof -
    show "(2::rat) powi (- ?j) = 1 / 2 ^ nat ?j"
      using b by (intro powi_neg) simp
    have "(2::rat) powi (- ?j - 1) = 2 powi (- bitlen ?m)" by simp
    also have "\<dots> = 1 / 2 ^ nat (bitlen ?m)"
      using b by (intro powi_neg) simp
    finally show "(2::rat) powi (- ?j - 1) = 1 / 2 ^ nat (bitlen ?m)" .
  qed
  show ?thesis
  proof (cases "x * 2 ^ nat ?j = 1")
    case True
    then have e: "expo x = - ?j" using x1 by (simp add: expo_def Let_def)
    have "x = 1 / 2 ^ nat ?j" using True by (simp add: field_simps)
    then have "x = 2 powi (- ?j)" using q by simp
    moreover have "(2::rat) powi (- ?j) < 2 powi (- ?j + 1)"
      by (intro power_int_strict_increasing) simp_all
    ultimately show ?thesis by (simp add: e)
  next
    case False
    then have e: "expo x = - ?j - 1" using x1 by (simp add: expo_def Let_def)
    have "x * 2 ^ nat ?j < 1" using False xhi by simp
    then have "x < 1 / 2 ^ nat ?j" by (simp add: field_simps)
    then have 2: "x < 2 powi (- ?j - 1 + 1)" using q by simp
    have "1 / 2 ^ nat (bitlen ?m) < x" using xlo by (simp add: field_simps)
    then have 1: "2 powi (- ?j - 1) \<le> x" using q by simp
    from 1 2 show ?thesis by (simp add: e)
  qed
qed

lemma powi_split: "(2::rat) powi (a + b) = 2 powi a * 2 powi b"
  by (simp add: power_int_add)

lemma powi_pos: "0 \<le> n \<Longrightarrow> (2::rat) powi n = of_int (2 ^ nat n)"
  by (simp add: power_int_def)

lemma expo_le:
  assumes "0 < x" and "x \<le> y"
  shows "expo x \<le> expo y"
proof (rule ccontr)
  assume "\<not> expo x \<le> expo y"
  then have "expo y + 1 \<le> expo x" by simp
  then have "(2::rat) powi (expo y + 1) \<le> 2 powi expo x"
    by (intro power_int_increasing) simp_all
  moreover have "2 powi expo x \<le> x" using expo_bounds [OF assms(1)] by simp
  moreover have "y < 2 powi (expo y + 1)" using expo_bounds [of y] assms by simp
  ultimately show False using assms(2) by linarith
qed

lemma ulp_exp_le:
  assumes "x \<noteq> 0" and "\<bar>x\<bar> \<le> \<bar>y\<bar>"
  shows "ulp_exp x \<le> ulp_exp y"
  using expo_le [of "\<bar>x\<bar>" "\<bar>y\<bar>"] assms by (simp add: ulp_exp_def)

text \<open>A multiple of a coarser grid is a multiple of a finer one.\<close>

lemma grid_refine:
  assumes "q \<le> r"
  shows "of_int m * 2 powi r / 2 powi q = (of_int (m * 2 ^ nat (r - q)) :: rat)"
proof -
  have "(2::rat) powi r = 2 powi (r - q) * 2 powi q"
    by (simp flip: power_int_add)
  moreover have "(2::rat) powi (r - q) = of_int (2 ^ nat (r - q))"
    using assms by (intro powi_pos) simp
  ultimately show ?thesis by simp
qed

lemma rnd64_grid:
  assumes "x \<noteq> 0"
  shows "rnd64 x = of_int (round_half_even (x / 2 powi ulp_exp x)) * 2 powi ulp_exp x"
  using assms by (simp add: rnd64_def)

lemma rnd64_le_grid:
  assumes "x \<noteq> 0" and "x \<le> of_int m * 2 powi r" and "ulp_exp x \<le> r"
  shows "rnd64 x \<le> of_int m * 2 powi r"
proof -
  let ?q = "ulp_exp x"
  let ?k = "m * 2 ^ nat (r - ?q)"
  have g: "of_int m * 2 powi r = (of_int ?k :: rat) * 2 powi ?q"
    using grid_refine [OF assms(3), of m] by (simp add: field_simps)
  have "x / 2 powi ?q \<le> of_int ?k"
    using assms(2) unfolding g by (simp add: field_simps)
  then have "round_half_even (x / 2 powi ?q) \<le> ?k"
    using round_half_even_between [of "\<lfloor>x / 2 powi ?q\<rfloor>" "x / 2 powi ?q" ?k] by simp
  then have "(of_int (round_half_even (x / 2 powi ?q)) :: rat) \<le> of_int ?k"
    by (simp only: of_int_le_iff)
  then have "of_int (round_half_even (x / 2 powi ?q)) * 2 powi ?q \<le> (of_int ?k :: rat) * 2 powi ?q"
    by (intro mult_right_mono) simp_all
  then show ?thesis
    unfolding rnd64_grid [OF assms(1)] g .
qed

lemma rnd64_ge_grid:
  assumes "x \<noteq> 0" and "of_int m * 2 powi r \<le> x" and "ulp_exp x \<le> r"
  shows "of_int m * 2 powi r \<le> rnd64 x"
proof -
  let ?q = "ulp_exp x"
  let ?k = "m * 2 ^ nat (r - ?q)"
  have g: "of_int m * 2 powi r = (of_int ?k :: rat) * 2 powi ?q"
    using grid_refine [OF assms(3), of m] by (simp add: field_simps)
  have "of_int ?k \<le> x / 2 powi ?q"
    using assms(2) unfolding g by (simp add: field_simps)
  then have "?k \<le> round_half_even (x / 2 powi ?q)"
    using round_half_even_between [of ?k "x / 2 powi ?q" "\<lfloor>x / 2 powi ?q\<rfloor> + 1"]
    by simp linarith
  then have "(of_int ?k :: rat) \<le> of_int (round_half_even (x / 2 powi ?q))"
    by (simp only: of_int_le_iff)
  then have "(of_int ?k :: rat) * 2 powi ?q \<le> of_int (round_half_even (x / 2 powi ?q)) * 2 powi ?q"
    by (intro mult_right_mono) simp_all
  then show ?thesis
    unfolding rnd64_grid [OF assms(1)] g .
qed

lemma rnd64_nonpos: "x \<le> 0 \<Longrightarrow> rnd64 x \<le> 0"
  using rnd64_le_grid [of x 0 "ulp_exp x"] by (cases "x = 0") (simp_all add: rnd64_def)

lemma rnd64_nonneg: "0 \<le> x \<Longrightarrow> 0 \<le> rnd64 x"
  using rnd64_ge_grid [of x 0 "ulp_exp x"] by (cases "x = 0") (simp_all add: rnd64_def)

lemma ulp_exp_cases:
  "ulp_exp x = expo \<bar>x\<bar> - 52 \<or> ulp_exp x = - 1074"
  by (auto simp: ulp_exp_def max_def)

lemma rnd64_mono_pos:
  assumes "0 < x" and "x \<le> y"
  shows "rnd64 x \<le> rnd64 y"
proof -
  have x0: "x \<noteq> 0" and y0: "y \<noteq> 0" and y: "0 < y" using assms by simp_all
  have q: "ulp_exp x \<le> ulp_exp y"
    using assms by (intro ulp_exp_le) simp_all
  show ?thesis
  proof (cases "ulp_exp x = ulp_exp y")
    case True
    have "x / 2 powi ulp_exp y \<le> y / 2 powi ulp_exp y"
      using assms(2) by (simp add: divide_right_mono)
    then have "round_half_even (x / 2 powi ulp_exp y) \<le> round_half_even (y / 2 powi ulp_exp y)"
      by (rule round_half_even_mono)
    then have "(of_int (round_half_even (x / 2 powi ulp_exp y)) :: rat)
                 \<le> of_int (round_half_even (y / 2 powi ulp_exp y))"
      by (simp only: of_int_le_iff)
    then show ?thesis
      unfolding rnd64_grid [OF x0] rnd64_grid [OF y0] True
      by (intro mult_right_mono) simp_all
  next
    case False
    with q have lt: "ulp_exp x < ulp_exp y" by simp
    have "- 1074 \<le> ulp_exp x" by (simp add: ulp_exp_def)
    with lt ulp_exp_cases [of y] have qy: "ulp_exp y = expo \<bar>y\<bar> - 52" by linarith
    have "expo \<bar>x\<bar> - 52 \<le> ulp_exp x" by (simp add: ulp_exp_def)
    with lt qy have e: "expo x + 1 \<le> expo y" using assms y by simp
    let ?B = "of_int (2 ^ 52) * (2::rat) powi ulp_exp y"
    have B: "?B = 2 powi expo y"
    proof -
      have "(2::rat) powi (52 + (expo y - 52)) = 2 powi 52 * 2 powi (expo y - 52)"
        by (rule powi_split)
      then show ?thesis using qy y by simp
    qed
    have "x < 2 powi (expo x + 1)" using expo_bounds [OF assms(1)] by simp
    also have "\<dots> \<le> 2 powi expo y"
      using e by (intro power_int_increasing) simp_all
    finally have xB: "x \<le> ?B" unfolding B by simp
    have By: "?B \<le> y" unfolding B using expo_bounds [OF y] by simp
    have "rnd64 x \<le> ?B"
      using x0 xB lt by (intro rnd64_le_grid) simp_all
    moreover have "?B \<le> rnd64 y"
      using y0 By by (intro rnd64_ge_grid) simp_all
    ultimately show ?thesis by linarith
  qed
qed

lemma rnd64_mono_neg:
  assumes "y < 0" and "x \<le> y"
  shows "rnd64 x \<le> rnd64 y"
proof -
  have x0: "x \<noteq> 0" and y0: "y \<noteq> 0" and x: "x < 0" using assms by simp_all
  have ax: "0 < \<bar>x\<bar>" and ay: "0 < \<bar>y\<bar>" using x0 y0 by simp_all
  have q: "ulp_exp y \<le> ulp_exp x"
    using assms by (intro ulp_exp_le) simp_all
  show ?thesis
  proof (cases "ulp_exp x = ulp_exp y")
    case True
    have "x / 2 powi ulp_exp y \<le> y / 2 powi ulp_exp y"
      using assms(2) by (simp add: divide_right_mono)
    then have "round_half_even (x / 2 powi ulp_exp y) \<le> round_half_even (y / 2 powi ulp_exp y)"
      by (rule round_half_even_mono)
    then have "(of_int (round_half_even (x / 2 powi ulp_exp y)) :: rat)
                 \<le> of_int (round_half_even (y / 2 powi ulp_exp y))"
      by (simp only: of_int_le_iff)
    then show ?thesis
      unfolding rnd64_grid [OF x0] rnd64_grid [OF y0] True
      by (intro mult_right_mono) simp_all
  next
    case False
    with q have lt: "ulp_exp y < ulp_exp x" by simp
    have "- 1074 \<le> ulp_exp y" by (simp add: ulp_exp_def)
    with lt ulp_exp_cases [of x] have qx: "ulp_exp x = expo \<bar>x\<bar> - 52" by linarith
    have "expo \<bar>y\<bar> - 52 \<le> ulp_exp y" by (simp add: ulp_exp_def)
    with lt qx have e: "expo \<bar>y\<bar> + 1 \<le> expo \<bar>x\<bar>" by simp
    let ?B = "of_int (- (2 ^ 52)) * (2::rat) powi ulp_exp x"
    have B: "?B = - (2 powi expo \<bar>x\<bar>)"
    proof -
      have "(2::rat) powi (52 + (expo \<bar>x\<bar> - 52)) = 2 powi 52 * 2 powi (expo \<bar>x\<bar> - 52)"
        by (rule powi_split)
      then show ?thesis using qx by simp
    qed
    have "\<bar>y\<bar> < 2 powi (expo \<bar>y\<bar> + 1)" using expo_bounds [OF ay] by simp
    also have "\<dots> \<le> 2 powi expo \<bar>x\<bar>"
      using e by (intro power_int_increasing) simp_all
    finally have By: "?B \<le> y" unfolding B using assms(1) by simp
    have "2 powi expo \<bar>x\<bar> \<le> \<bar>x\<bar>" using expo_bounds [OF ax] by simp
    then have xB: "x \<le> ?B" unfolding B using x by simp
    have "rnd64 x \<le> ?B"
      using x0 xB by (intro rnd64_le_grid) simp_all
    moreover have "?B \<le> rnd64 y"
      using y0 By lt by (intro rnd64_ge_grid) simp_all
    ultimately show ?thesis by linarith
  qed
qed

lemma rnd64_mono:
  assumes "x \<le> y"
  shows "rnd64 x \<le> rnd64 y"
proof -
  consider "0 < x" | "y < 0" | "x \<le> 0" "0 \<le> y" by linarith
  then show ?thesis
  proof cases
    case 1
    then show ?thesis using assms by (rule rnd64_mono_pos)
  next
    case 2
    then show ?thesis using assms by (rule rnd64_mono_neg)
  next
    case 3
    then show ?thesis
      using rnd64_nonpos [of x] rnd64_nonneg [of y] by linarith
  qed
qed

lemma expo_of_int_le:
  assumes "k \<noteq> 0" and "\<bar>k\<bar> < 2 ^ 53"
  shows "ulp_exp (of_int k) \<le> 0"
proof -
  let ?x = "\<bar>of_int k :: rat\<bar>"
  have x: "0 < ?x" using assms(1) by simp
  have "?x = of_int \<bar>k\<bar>" by simp
  also have "\<dots> < of_int (2 ^ 53)" using assms(2) by (simp only: of_int_less_iff)
  finally have "?x < 2 powi 53" by simp
  moreover have "2 powi expo ?x \<le> ?x" using expo_bounds [OF x] by simp
  ultimately have lt: "(2::rat) powi expo ?x < 2 powi 53" by linarith
  have "expo ?x < 53"
  proof (rule ccontr)
    assume "\<not> expo ?x < 53"
    then have "(2::rat) powi 53 \<le> 2 powi expo ?x"
      by (intro power_int_increasing) simp_all
    with lt show False by linarith
  qed
  then show ?thesis by (simp add: ulp_exp_def)
qed

lemma rnd64_of_int:
  assumes "\<bar>k\<bar> < 2 ^ 53"
  shows "rnd64 (of_int k) = of_int k"
proof (cases "k = 0")
  case True
  then show ?thesis by (simp add: rnd64_def)
next
  case False
  then have x0: "(of_int k :: rat) \<noteq> 0" by simp
  have q: "ulp_exp (of_int k) \<le> 0" using False assms by (rule expo_of_int_le)
  have "rnd64 (of_int k) \<le> of_int k * 2 powi 0"
    using x0 q by (intro rnd64_le_grid) simp_all
  moreover have "of_int k * 2 powi 0 \<le> rnd64 (of_int k)"
    using x0 q by (intro rnd64_ge_grid) simp_all
  ultimately show ?thesis by simp
qed

lemma rnd64_between:
  assumes "of_int lo \<le> x" and "x \<le> of_int hi" and "\<bar>lo\<bar> < 2 ^ 53" and "\<bar>hi\<bar> < 2 ^ 53"
  shows "of_int lo \<le> rnd64 x \<and> rnd64 x \<le> of_int hi"
  using rnd64_mono [OF assms(1)] rnd64_mono [OF assms(2)]
    rnd64_of_int [OF assms(3)] rnd64_of_int [OF assms(4)]
  by simp

lemma rnd64_numeral [simp]:
  "(numeral n :: int) < 2 ^ 53 \<Longrightarrow> rnd64 (numeral n) = numeral n"
  using rnd64_of_int [of "numeral n"] by simp

lemma rnd64_neg_numeral [simp]:
  "(numeral n :: int) < 2 ^ 53 \<Longrightarrow> rnd64 (- numeral n) = - numeral n"
  using rnd64_of_int [of "- numeral n"] by simp

lemma rnd64_0 [simp]: "rnd64 0 = 0"
  by (simp add: rnd64_def)

lemma rnd64_1 [simp]: "rnd64 1 = 1"
  using rnd64_of_int [of 1] by simp

lemma round2_of_int:
  assumes "\<bar>k\<bar> < 2 ^ 53"
  shows "round2 (of_int k) = of_int k"
proof -
  have "(of_int k :: rat) * 100 = of_int (k * 100)" by simp
  then have "round_half_even (of_int k * 100) = k * 100"
    by (simp only: round_half_even_of_int)
  then show ?thesis
    using rnd64_of_int [OF assms] by (simp add: round2_def)
qed

lemma round2_mono:
  assumes "x \<le> y"
  shows "round2 x \<le> round2 y"
proof -
  have "round_half_even (x * 100) \<le> round_half_even (y * 100)"
    using assms by (intro round_half_even_mono) simp
  then have "(of_int (round_half_even (x * 100)) :: rat) / 100 \<le> of_int (round_half_even (y * 100)) / 100"
    by (simp add: divide_right_mono)
  then show ?thesis
    unfolding round2_def by (rule rnd64_mono)
qed

lemma round2_between:
  assumes "of_int lo \<le> x" and "x \<le> of_int hi" and "\<bar>lo\<bar> < 2 ^ 53" and "\<bar>hi\<bar> < 2 ^ 53"
  shows "of_int lo \<le> round2 x \<and> round2 x \<le> of_int hi"
  using round2_mono [OF assms(1)] round2_mono [OF assms(2)]
    round2_of_int [OF assms(3)] round2_of_int [OF assms(4)]
  by simp

lemma two_decimals_round2: "two_decimals (round2 x)"
  unfolding two_decimals_def round2_def by blast

text \<open>
  \<^verbatim>\<open>random.uniform(a, b)\<close> with int bounds stays within them, rounding included, when
  \<^verbatim>\<open>random.random()\<close> is in the unit interval.
\<close>

lemma uniform_between:
  assumes "0 \<le> r" and "r < 1" and "a \<le> b"
    and "\<bar>a\<bar> < 2 ^ 53" and "\<bar>b\<bar> < 2 ^ 53" and "\<bar>b - a\<bar> < 2 ^ 53"
  shows "of_int a \<le> fl_add (of_int a) (fl_mul (of_int (b - a)) r)
       \<and> fl_add (of_int a) (fl_mul (of_int (b - a)) r) \<le> of_int b"
proof -
  let ?t = "fl_mul (of_int (b - a)) r"
  have w: "(0::rat) \<le> of_int (b - a)" using assms(3) by simp
  have "of_int 0 \<le> of_int (b - a) * r"
    using w assms(1) by simp
  moreover have "of_int (b - a) * r \<le> of_int (b - a) * 1"
    using w assms(2) by (intro mult_left_mono) simp_all
  then have "of_int (b - a) * r \<le> of_int (b - a)" by simp
  ultimately have t: "of_int 0 \<le> ?t \<and> ?t \<le> of_int (b - a)"
    unfolding fl_mul_def using assms(6) by (intro rnd64_between) simp_all
  then have "of_int a \<le> of_int a + ?t" and "of_int a + ?t \<le> of_int b"
    by simp_all
  then show ?thesis
    unfolding fl_add_def using assms(4,5) by (intro rnd64_between) simp_all
qed

lemma round2_uniform:
  assumes "0 \<le> r" and "r < 1" and "a \<le> b"
    and "\<bar>a\<bar> < 2 ^ 53" and "\<bar>b\<bar> < 2 ^ 53" and "\<bar>b - a\<bar> < 2 ^ 53"
  shows "of_int a \<le> round2 (fl_add (of_int a) (fl_mul (of_int (b - a)) r))
       \<and> round2 (fl_add (of_int a) (fl_mul (of_int (b - a)) r)) \<le> of_int b"
  using uniform_between [OF assms] assms(4,5) by (intro round2_between) simp_all

text \<open>
  Two values as Python computes them: \<^verbatim>\<open>(0.1 + 0.2 + 0.3) / 3\<close> is
  0.20000000000000004, and \<^verbatim>\<open>round(0 + 5 * 0.263, 2)\<close> is 1.31, where exact arithmetic
  would give 1/5 and 1.32.
\<close>

lemma binary64_samples:
  "fl_div (py_sum [rnd64 (1 / 10), rnd64 (2 / 10), rnd64 (3 / 10)]) 3
     = 7205759403792795 / 36028797018963968"
  "round2 (fl_add 0 (fl_mul 5 (rnd64 (263 / 1000)))) = rnd64 (131 / 100)"
  by code_simp+

section \<open>The random fields\<close>

lemma fetch_stock_data_eq:
  "fetch_stock_data e sy s =
     (Inr (Dict [(''symbol'', Str sy),
                 (''price'', Num (round2 (fl_add 50 (fl_mul 450 (rand e (rng_pos s)))))),
                 (''change'', Num (round2 (fl_add (- 5) (fl_mul 10 (rand e (Suc (rng_pos s)))))))]),
      s\<lparr>rng_pos := Suc (Suc (rng_pos s)), trace := trace s @ [FetchStockData sy]\<rparr>)"
  by (simp add: fetch_stock_data_def monad_defs)

lemma fetch_economic_indicators_eq:
  "fetch_economic_indicators e s =
     (Inr (Dict [(''gdp_growth'', Num (round2 (fl_add (- 2) (fl_mul 7 (rand e (rng_pos s)))))),
                 (''unemployment_rate'', Num (round2 (fl_add 3 (fl_mul 7 (rand e (Suc (rng_pos s))))))),
                 (''inflation_rate'', Num (round2 (fl_add 0 (fl_mul 5 (rand e (Suc (Suc (rng_pos s))))))))]),
      s\<lparr>rng_pos := Suc (Suc (Suc (rng_pos s))), trace := trace s @ [FetchEconomicIndicators]\<rparr>)"
  by (simp add: fetch_economic_indicators_def monad_defs)

text \<open>
  C9. When \<^verbatim>\<open>random.random()\<close> gives numbers of the unit interval, as it does, the
  random fields lie in the ranges of their generators and have two decimal places
  (each is the float nearest to a whole number of hundredths):
  \<^verbatim>\<open>fetch_stock_data\<close> returns a price in [50, 500] and a change in [-5, 5], and
  \<^verbatim>\<open>fetch_economic_indicators\<close> a gdp_growth in [-2, 5], an unemployment_rate in
  [3, 10] and an inflation_rate in [0, 5]; the last two are never negative.
\<close>

theorem random_fields_in_range:
  assumes "\<forall>n. 0 \<le> rand e n \<and> rand e n < 1"
  shows "(\<exists>p c. fst (fetch_stock_data e symbol s)
                 = Inr (Dict [(''symbol'', Str symbol), (''price'', Num p), (''change'', Num c)])
            \<and> 50 \<le> p \<and> p \<le> 500 \<and> - 5 \<le> c \<and> c \<le> 5
            \<and> two_decimals p \<and> two_decimals c)
       \<and> (\<exists>g u i. fst (fetch_economic_indicators e s)
                 = Inr (Dict [(''gdp_growth'', Num g), (''unemployment_rate'', Num u),
                              (''inflation_rate'', Num i)])
            \<and> - 2 \<le> g \<and> g \<le> 5 \<and> 3 \<le> u \<and> u \<le> 10 \<and> 0 \<le> i \<and> i \<le> 5
            \<and> two_decimals g \<and> two_decimals u \<and> two_decimals i)"
proof -
  have r: "0 \<le> rand e n" "rand e n < 1" for n
    using assms by simp_all
  have price: "50 \<le> round2 (fl_add 50 (fl_mul 450 (rand e n))) \<and> round2 (fl_add 50 (fl_mul 450 (rand e n))) \<le> 500" for n
    using round2_uniform [OF r [of n], of 50 500] by simp
  have change: "- 5 \<le> round2 (fl_add (- 5) (fl_mul 10 (rand e n))) \<and> round2 (fl_add (- 5) (fl_mul 10 (rand e n))) \<le> 5" for n
    using round2_uniform [OF r [of n], of "- 5" 5] by simp
  have gdp: "- 2 \<le> round2 (fl_add (- 2) (fl_mul 7 (rand e n))) \<and> round2 (fl_add (- 2) (fl_mul 7 (rand e n))) \<le> 5" for n
    using round2_uniform [OF r [of n], of "- 2" 5] by simp
  have unemp: "3 \<le> round2 (fl_add 3 (fl_mul 7 (rand e n))) \<and> round2 (fl_add 3 (fl_mul 7 (rand e n))) \<le> 10" for n
    using round2_uniform [OF r [of n], of 3 10] by simp
  have infl: "0 \<le> round2 (fl_add 0 (fl_mul 5 (rand e n))) \<and> round2 (fl_add 0 (fl_mul 5 (rand e n))) \<le> 5" for n
    using round2_uniform [OF r [of n], of 0 5] by simp
  show ?thesis
    unfolding fetch_stock_data_eq fetch_economic_indicators_eq fst_conv
    using price change gdp unemp infl by (simp add: two_decimals_round2)
qed

theorem random_fields_in_range_witness:
  "(\<exists>p c. fst (fetch_stock_data demo_env ''AAPL'' init)
             = Inr (Dict [(''symbol'', Str ''AAPL''), (''price'', Num p), (''change'', Num c)])
        \<and> 50 \<le> p \<and> p \<le> 500 \<and> - 5 \<le> c \<and> c \<le> 5
        \<and> two_decimals p \<and> two_decimals c)
   \<and> (\<exists>g u i. fst (fetch_economic_indicators demo_env init)
             = Inr (Dict [(''gdp_growth'', Num g), (''unemployment_rate'', Num u),
                          (''inflation_rate'', Num i)])
        \<and> - 2 \<le> g \<and> g \<le> 5 \<and> 3 \<le> u \<and> u \<le> 10 \<and> 0 \<le> i \<and> i \<le> 5
        \<and> two_decimals g \<and> two_decimals u \<and> two_decimals i)"
proof -
  have h: "\<forall>n. 0 \<le> rand demo_env n \<and> rand demo_env n < 1"
    by (simp add: demo_env_def)
  show ?thesis
    by (rule random_fields_in_range [OF h])
qed

lemma demo_quote:
  "fst (fetch_stock_data demo_env ''AAPL'' init)
     = Inr (Dict [(''symbol'', Str ''AAPL''), (''price'', Num 275), (''change'', Num 0)])"
  by (simp add: fetch_stock_data_eq demo_env_def init_def fl_add_def fl_mul_def
      round2_of_int [of 275, simplified] round2_of_int [of 0, simplified])

section \<open>The keyword branch\<close>

text \<open>
  C1. Whenever \<^verbatim>\<open>financial_advisor_agent\<close> returns a recommendation, \<^verbatim>\<open>run_analysis\<close>
  returns too; after the events of the agent it prints the five lines of the report and
  then tests the lower-cased recommendation: if buy occurs in it,
  \<^verbatim>\<open>execute_buy_order(stock_symbol)\<close> is called, otherwise if sell occurs in it,
  \<^verbatim>\<open>execute_sell_order(stock_symbol)\<close> is called, and otherwise the no-action message
  is printed. (That \<open>contains\<close> is the substring test is lemma \<open>contains_sublist\<close>.)
\<close>

theorem run_analysis_keyword_dispatch:
  assumes "fst (financial_advisor_agent e stock_symbol risk_tolerance s) = Inr recommendation"
  shows "fst (run_analysis e stock_symbol risk_tolerance s) = Inr ()
     \<and> run_events e stock_symbol risk_tolerance s =
         agent_events e stock_symbol risk_tolerance s
         @ [Print (NL @ ''Analysis for '' @ stock_symbol @ '':''),
            Print (''Stock Data: '' @ py_str e
                     (stock_data (snd (financial_advisor_agent e stock_symbol risk_tolerance s)))),
            Print (''News Sentiment: '' @ py_str e
                     (news_sentiment (snd (financial_advisor_agent e stock_symbol risk_tolerance s)))),
            Print (''Economic Indicators: '' @ py_str e
                     (economic_indicators
                        (snd (financial_advisor_agent e stock_symbol risk_tolerance s)))),
            Print (NL @ ''Investment Recommendation:'' @ NL @ recommendation)]
         @ (if contains ''buy'' (lower recommendation)
            then [ExecuteBuyOrder stock_symbol,
                  Print (''Executing buy order for '' @ stock_symbol)]
            else if contains ''sell'' (lower recommendation)
            then [ExecuteSellOrder stock_symbol,
                  Print (''Executing sell order for '' @ stock_symbol)]
            else [Print ''No action taken based on the current recommendation.''])"
  using run_analysis_fst_returns [OF assms] run_events_returns [OF assms] by simp

theorem run_analysis_keyword_dispatch_witness:
  "fst (run_analysis demo_env ''AAPL'' ''moderate'' init) = Inr ()
   \<and> orders (run_events demo_env ''AAPL'' ''moderate'' init) = [ExecuteBuyOrder ''AAPL'']
   \<and> fst (run_analysis sell_env ''AAPL'' ''moderate'' init) = Inr ()
   \<and> orders (run_events sell_env ''AAPL'' ''moderate'' init) = [ExecuteSellOrder ''AAPL'']
   \<and> fst (run_analysis hold_env ''AAPL'' ''moderate'' init) = Inr ()
   \<and> orders (run_events hold_env ''AAPL'' ''moderate'' init) = []
   \<and> printed (run_events hold_env ''AAPL'' ''moderate'' init) ! 5
        = ''No action taken based on the current recommendation.''"
  using run_analysis_keyword_dispatch [OF demo_agent_returns]
    run_analysis_keyword_dispatch [OF sell_agent_returns]
    run_analysis_keyword_dispatch [OF hold_agent_returns]
  by (simp add: orders_def agent_quiet [unfolded orders_def] printed_append agent_quiet(1)
      lower_def lower_char_def)

text \<open>
  C8, as amended. In a run in which \<^verbatim>\<open>financial_advisor_agent\<close> returns a
  recommendation, exactly one of the three branches executes: the first whose test
  holds. In particular, when the lower-cased recommendation contains both buy and sell,
  \<^verbatim>\<open>execute_buy_order\<close> is the only order called. In a run in which the agent raises,
  none of the three branches executes.
\<close>

theorem run_analysis_one_branch:
  "(\<forall>r. fst (financial_advisor_agent e stock_symbol risk_tolerance s) = Inr r \<longrightarrow>
        outcomes (run_events e stock_symbol risk_tolerance s) =
          [if contains ''buy'' (lower r) then ExecuteBuyOrder stock_symbol
           else if contains ''sell'' (lower r) then ExecuteSellOrder stock_symbol
           else Print ''No action taken based on the current recommendation.''])
   \<and> (\<forall>r. fst (financial_advisor_agent e stock_symbol risk_tolerance s) = Inr r
          \<and> contains ''buy'' (lower r) \<and> contains ''sell'' (lower r) \<longrightarrow>
        orders (run_events e stock_symbol risk_tolerance s) = [ExecuteBuyOrder stock_symbol])
   \<and> (\<forall>x. fst (financial_advisor_agent e stock_symbol risk_tolerance s) = Inl x \<longrightarrow>
        outcomes (run_events e stock_symbol risk_tolerance s) = [])"
proof (intro conjI allI impI)
  fix r
  assume "fst (financial_advisor_agent e stock_symbol risk_tolerance s) = Inr r"
  from run_events_returns [OF this]
  show "outcomes (run_events e stock_symbol risk_tolerance s) =
          [if contains ''buy'' (lower r) then ExecuteBuyOrder stock_symbol
           else if contains ''sell'' (lower r) then ExecuteSellOrder stock_symbol
           else Print ''No action taken based on the current recommendation.'']"
    by (simp add: outcomes_def agent_quiet(3) [unfolded outcomes_def] NL_def)
next
  fix r
  assume "fst (financial_advisor_agent e stock_symbol risk_tolerance s) = Inr r
          \<and> contains ''buy'' (lower r) \<and> contains ''sell'' (lower r)"
  then have "fst (financial_advisor_agent e stock_symbol risk_tolerance s) = Inr r"
    and "contains ''buy'' (lower r)" by simp_all
  from run_events_returns [OF this(1)] this(2)
  show "orders (run_events e stock_symbol risk_tolerance s) = [ExecuteBuyOrder stock_symbol]"
    by (simp add: orders_def agent_quiet(2) [unfolded orders_def])
next
  fix x
  assume "fst (financial_advisor_agent e stock_symbol risk_tolerance s) = Inl x"
  from run_events_raises [OF this]
  show "outcomes (run_events e stock_symbol risk_tolerance s) = []"
    by (simp add: agent_quiet)
qed

theorem run_analysis_one_branch_witness:
  "outcomes (run_events demo_env ''AAPL'' ''moderate'' init) = [ExecuteBuyOrder ''AAPL'']
   \<and> orders (run_events demo_env ''AAPL'' ''moderate'' init) = [ExecuteBuyOrder ''AAPL'']
   \<and> outcomes (run_events no_api_env ''AAPL'' ''moderate'' init) = []"
  using run_analysis_one_branch [of demo_env "''AAPL''" "''moderate''" init]
    run_analysis_one_branch [of no_api_env "''AAPL''" "''moderate''" init]
    demo_agent_returns no_api_agent_raises demo_keywords
  by simp

theorem run_analysis_no_branch_counterexample:
  "fst (run_analysis no_sentiment_env ''AAPL'' ''moderate'' init)
     = Inl (ExternalError ''corpus not found'')
   \<and> outcomes (run_events no_sentiment_env ''AAPL'' ''moderate'' init) = []"
  using run_analysis_fst_raises [OF no_sentiment_agent_raises]
    run_events_raises [OF no_sentiment_agent_raises]
  by (simp add: agent_quiet)

section \<open>The order of the operations\<close>

lemma no_api_agent_steps:
  "map op_name (agent_events no_api_env ''AAPL'' ''moderate'' init) =
     [''financial_advisor_agent'', ''fetch_stock_data'', ''fetch_news_articles'',
      ''analyze_sentiment'', ''analyze_sentiment'', ''analyze_sentiment'',
      ''fetch_economic_indicators'', ''analyze_market_conditions'',
      ''chat.completions.create'']"
  by (simp add: agent_events_def agent_unfold no_api_env_def demo_env_def init_def
      split: sum.splits)

text \<open>Where the agent stops: the result and the operations made, case by case.\<close>

lemma agent_stops_scoring:
  "polarity e (sy @ '' announces new product line'') = Inl x \<Longrightarrow>
   fst (financial_advisor_agent e sy risk s) = Inl x
   \<and> map op_name (agent_events e sy risk s) = take 4 agent_steps"
  "polarity e (sy @ '' announces new product line'') = Inr a \<Longrightarrow>
   polarity e (sy @ '' reports quarterly earnings'') = Inl x \<Longrightarrow>
   fst (financial_advisor_agent e sy risk s) = Inl x
   \<and> map op_name (agent_events e sy risk s) = take 5 agent_steps"
  "polarity e (sy @ '' announces new product line'') = Inr a \<Longrightarrow>
   polarity e (sy @ '' reports quarterly earnings'') = Inr b \<Longrightarrow>
   polarity e (sy @ '' faces regulatory scrutiny'') = Inl x \<Longrightarrow>
   fst (financial_advisor_agent e sy risk s) = Inl x
   \<and> map op_name (agent_events e sy risk s) = take 6 agent_steps"
  by (simp_all add: agent_events_def agent_unfold agent_steps_def)

lemma agent_llm_stage:
  assumes "prompt_built e sy s p"
  shows "(fst (financial_advisor_agent e sy risk s), map op_name (agent_events e sy risk s)) =
     (case chat e (api_pos s)
             \<lparr>model = ''gpt-4-0125-preview'',
              messages = [\<lparr>role = ''user'', content = p\<rparr>],
              max_tokens = 150\<rparr> of
        Inl x \<Rightarrow> (Inl x, take 9 agent_steps)
      | Inr response \<Rightarrow>
          (case first_content response of
             Inl x \<Rightarrow> (Inl x, take 9 agent_steps)
           | Inr market_outlook \<Rightarrow>
               (case chat e (Suc (api_pos s))
                       \<lparr>model = ''gpt-4-0125-preview'',
                        messages = [\<lparr>role = ''user'',
                                     content = recommendation_prompt market_outlook risk\<rparr>],
                        max_tokens = 200\<rparr> of
                  Inl x \<Rightarrow> (Inl x, agent_steps)
                | Inr response' \<Rightarrow> (first_content response', agent_steps))))"
proof -
  from assms obtain a b c sd ei where
    pol: "polarity e (sy @ '' announces new product line'') = Inr a"
      "polarity e (sy @ '' reports quarterly earnings'') = Inr b"
      "polarity e (sy @ '' faces regulatory scrutiny'') = Inr c" and
    sd: "fst (fetch_stock_data e sy s) = Inr sd" and
    ei: "fst (fetch_economic_indicators e (s\<lparr>rng_pos := Suc (Suc (rng_pos s))\<rparr>)) = Inr ei" and
    p: "market_prompt e sd (Atom (Num (fl_div (py_sum [a, b, c]) 3))) ei = Inr p"
    unfolding prompt_built_def by blast
  have sd': "sd = Dict [(''symbol'', Str sy),
                 (''price'', Num (round2 (fl_add 50 (fl_mul 450 (rand e (rng_pos s)))))),
                 (''change'', Num (round2 (fl_add (- 5) (fl_mul 10 (rand e (Suc (rng_pos s)))))))]"
    using sd by (simp add: fetch_stock_data_eq)
  have ei': "ei = Dict [(''gdp_growth'',
                    Num (round2 (fl_add (- 2) (fl_mul 7 (rand e (Suc (Suc (rng_pos s)))))))),
                 (''unemployment_rate'',
                    Num (round2 (fl_add 3 (fl_mul 7 (rand e (Suc (Suc (Suc (rng_pos s))))))))),
                 (''inflation_rate'',
                    Num (round2 (fl_add 0 (fl_mul 5 (rand e (Suc (Suc (Suc (Suc (rng_pos s))))))))))]"
    using ei by (simp add: fetch_economic_indicators_eq)
  show ?thesis
    using pol p unfolding sd' ei'
    by (simp add: agent_events_def agent_unfold agent_steps_def split: sum.splits)
qed

lemma prompt_built_exists:
  assumes "polarity e (sy @ '' announces new product line'') = Inr a"
      and "polarity e (sy @ '' reports quarterly earnings'') = Inr b"
      and "polarity e (sy @ '' faces regulatory scrutiny'') = Inr c"
  shows "\<exists>p. prompt_built e sy s p"
proof -
  let ?sd = "Dict [(''symbol'', Str sy),
                   (''price'', Num (round2 (fl_add 50 (fl_mul 450 (rand e (rng_pos s)))))),
                   (''change'', Num (round2 (fl_add (- 5) (fl_mul 10 (rand e (Suc (rng_pos s)))))))]"
  let ?ei = "Dict [(''gdp_growth'',
                    Num (round2 (fl_add (- 2) (fl_mul 7 (rand e (Suc (Suc (rng_pos s)))))))),
                   (''unemployment_rate'',
                    Num (round2 (fl_add 3 (fl_mul 7 (rand e (Suc (Suc (Suc (rng_pos s))))))))),
                   (''inflation_rate'',
                    Num (round2 (fl_add 0 (fl_mul 5 (rand e (Suc (Suc (Suc (Suc (rng_pos s))))))))))]"
  have sd: "fst (fetch_stock_data e sy s) = Inr ?sd"
    by (simp add: fetch_stock_data_eq)
  have ei: "fst (fetch_economic_indicators e (s\<lparr>rng_pos := Suc (Suc (rng_pos s))\<rparr>)) = Inr ?ei"
    by (simp add: fetch_economic_indicators_eq)
  obtain p where "market_prompt e ?sd (Atom (Num (fl_div (py_sum [a, b, c]) 3))) ?ei = Inr p"
    by (cases "market_prompt e ?sd (Atom (Num (fl_div (py_sum [a, b, c]) 3))) ?ei") simp_all
  with assms sd ei show ?thesis
    unfolding prompt_built_def by blast
qed

lemma run_stops:
  "fst (financial_advisor_agent e sy risk s) = Inl x
   \<and> map op_name (agent_events e sy risk s) = xs \<Longrightarrow>
   fst (run_analysis e sy risk s) = Inl x \<and> steps e sy risk s = xs"
  by (simp add: run_analysis_fst_raises run_events_raises steps_def)

text \<open>
  C2, as amended. The operations of an invocation of \<^verbatim>\<open>run_analysis\<close> occur in this
  order: \<^verbatim>\<open>fetch_stock_data\<close>, \<^verbatim>\<open>fetch_news_articles\<close>, \<^verbatim>\<open>analyze_sentiment\<close> on
  each of the three headlines, \<^verbatim>\<open>fetch_economic_indicators\<close>,
  \<^verbatim>\<open>analyze_market_conditions\<close> with its API call,
  \<^verbatim>\<open>generate_investment_recommendation\<close> with its API call, the five prints of the
  report, and the keyword branch with its print. An invocation that returns performs
  the whole sequence. One in which a call raises ends at that call: after the
  \<^verbatim>\<open>analyze_sentiment\<close> that raised (4, 5 or 6 operations), after the first API call
  when it raises or its response has no usable first choice (9 operations), after the
  second API call in the same two cases (11 operations); nothing follows.
\<close>

theorem run_analysis_pipeline:
  "(\<forall>x. fst (run_analysis e stock_symbol risk_tolerance s) = Inl x \<longrightarrow>
        prefix (steps e stock_symbol risk_tolerance s) agent_steps)
   \<and> (fst (run_analysis e stock_symbol risk_tolerance s) = Inr () \<longrightarrow>
        steps e stock_symbol risk_tolerance s
          = agent_steps @ report_steps @ [''execute_buy_order'', ''print'']
      \<or> steps e stock_symbol risk_tolerance s
          = agent_steps @ report_steps @ [''execute_sell_order'', ''print'']
      \<or> steps e stock_symbol risk_tolerance s
          = agent_steps @ report_steps @ [''print''])
   \<and> (\<forall>x. polarity e (stock_symbol @ '' announces new product line'') = Inl x \<longrightarrow>
        fst (run_analysis e stock_symbol risk_tolerance s) = Inl x
        \<and> steps e stock_symbol risk_tolerance s = take 4 agent_steps)
   \<and> (\<forall>a x. polarity e (stock_symbol @ '' announces new product line'') = Inr a
          \<and> polarity e (stock_symbol @ '' reports quarterly earnings'') = Inl x \<longrightarrow>
        fst (run_analysis e stock_symbol risk_tolerance s) = Inl x
        \<and> steps e stock_symbol risk_tolerance s = take 5 agent_steps)
   \<and> (\<forall>a b x. polarity e (stock_symbol @ '' announces new product line'') = Inr a
          \<and> polarity e (stock_symbol @ '' reports quarterly earnings'') = Inr b
          \<and> polarity e (stock_symbol @ '' faces regulatory scrutiny'') = Inl x \<longrightarrow>
        fst (run_analysis e stock_symbol risk_tolerance s) = Inl x
        \<and> steps e stock_symbol risk_tolerance s = take 6 agent_steps)
   \<and> (\<forall>p x. prompt_built e stock_symbol s p
          \<and> chat e (api_pos s)
                \<lparr>model = ''gpt-4-0125-preview'',
                 messages = [\<lparr>role = ''user'', content = p\<rparr>],
                 max_tokens = 150\<rparr> = Inl x \<longrightarrow>
        fst (run_analysis e stock_symbol risk_tolerance s) = Inl x
        \<and> steps e stock_symbol risk_tolerance s = take 9 agent_steps)
   \<and> (\<forall>p response x. prompt_built e stock_symbol s p
          \<and> chat e (api_pos s)
                \<lparr>model = ''gpt-4-0125-preview'',
                 messages = [\<lparr>role = ''user'', content = p\<rparr>],
                 max_tokens = 150\<rparr> = Inr response
          \<and> first_content response = Inl x \<longrightarrow>
        fst (run_analysis e stock_symbol risk_tolerance s) = Inl x
        \<and> steps e stock_symbol risk_tolerance s = take 9 agent_steps)
   \<and> (\<forall>p response market_outlook x. prompt_built e stock_symbol s p
          \<and> chat e (api_pos s)
                \<lparr>model = ''gpt-4-0125-preview'',
                 messages = [\<lparr>role = ''user'', content = p\<rparr>],
                 max_tokens = 150\<rparr> = Inr response
          \<and> first_content response = Inr market_outlook
          \<and> chat e (Suc (api_pos s))
                \<lparr>model = ''gpt-4-0125-preview'',
                 messages = [\<lparr>role = ''user'',
                              content = recommendation_prompt market_outlook risk_tolerance\<rparr>],
                 max_tokens = 200\<rparr> = Inl x \<longrightarrow>
        fst (run_analysis e stock_symbol risk_tolerance s) = Inl x
        \<and> steps e stock_symbol risk_tolerance s = agent_steps)
   \<and> (\<forall>p response market_outlook response' x. prompt_built e stock_symbol s p
          \<and> chat e (api_pos s)
                \<lparr>model = ''gpt-4-0125-preview'',
                 messages = [\<lparr>role = ''user'', content = p\<rparr>],
                 max_tokens = 150\<rparr> = Inr response
          \<and> first_content response = Inr market_outlook
          \<and> chat e (Suc (api_pos s))
                \<lparr>model = ''gpt-4-0125-preview'',
                 messages = [\<lparr>role = ''user'',
                              content = recommendation_prompt market_outlook risk_tolerance\<rparr>],
                 max_tokens = 200\<rparr> = Inr response'
          \<and> first_content response' = Inl x \<longrightarrow>
        fst (run_analysis e stock_symbol risk_tolerance s) = Inl x
        \<and> steps e stock_symbol risk_tolerance s = agent_steps)"
proof (intro conjI allI impI; (elim conjE)?)
  fix x
  assume "fst (run_analysis e stock_symbol risk_tolerance s) = Inl x"
  then show "prefix (steps e stock_symbol risk_tolerance s) agent_steps"
  proof (cases "fst (financial_advisor_agent e stock_symbol risk_tolerance s)")
    case (Inl y)
    from run_events_raises [OF Inl] show ?thesis
      by (simp add: steps_def agent_steps_prefix)
  next
    case (Inr r)
    assume "fst (run_analysis e stock_symbol risk_tolerance s) = Inl x"
    with run_analysis_fst_returns [OF Inr] show ?thesis by simp
  qed
next
  assume ok: "fst (run_analysis e stock_symbol risk_tolerance s) = Inr ()"
  show "steps e stock_symbol risk_tolerance s
          = agent_steps @ report_steps @ [''execute_buy_order'', ''print'']
      \<or> steps e stock_symbol risk_tolerance s
          = agent_steps @ report_steps @ [''execute_sell_order'', ''print'']
      \<or> steps e stock_symbol risk_tolerance s
          = agent_steps @ report_steps @ [''print'']"
  proof (cases "fst (financial_advisor_agent e stock_symbol risk_tolerance s)")
    case (Inl y)
    from run_analysis_fst_raises [OF Inl] ok show ?thesis by simp
  next
    case (Inr r)
    from run_events_returns [OF Inr] agent_steps_full [OF Inr] show ?thesis
      by (simp add: steps_def report_steps_def)
  qed
next
  fix x
  assume "polarity e (stock_symbol @ '' announces new product line'') = Inl x"
  then have "fst (run_analysis e stock_symbol risk_tolerance s) = Inl x
        \<and> steps e stock_symbol risk_tolerance s = take 4 agent_steps"
    by (intro run_stops agent_stops_scoring(1))
  then show "fst (run_analysis e stock_symbol risk_tolerance s) = Inl x"
    and "steps e stock_symbol risk_tolerance s = take 4 agent_steps"
    by simp_all
next
  fix a x
  assume "polarity e (stock_symbol @ '' announces new product line'') = Inr a"
    and "polarity e (stock_symbol @ '' reports quarterly earnings'') = Inl x"
  then have "fst (run_analysis e stock_symbol risk_tolerance s) = Inl x
        \<and> steps e stock_symbol risk_tolerance s = take 5 agent_steps"
    by (intro run_stops agent_stops_scoring(2))
  then show "fst (run_analysis e stock_symbol risk_tolerance s) = Inl x"
    and "steps e stock_symbol risk_tolerance s = take 5 agent_steps"
    by simp_all
next
  fix a b x
  assume "polarity e (stock_symbol @ '' announces new product line'') = Inr a"
    and "polarity e (stock_symbol @ '' reports quarterly earnings'') = Inr b"
    and "polarity e (stock_symbol @ '' faces regulatory scrutiny'') = Inl x"
  then have "fst (run_analysis e stock_symbol risk_tolerance s) = Inl x
        \<and> steps e stock_symbol risk_tolerance s = take 6 agent_steps"
    by (intro run_stops agent_stops_scoring(3))
  then show "fst (run_analysis e stock_symbol risk_tolerance s) = Inl x"
    and "steps e stock_symbol risk_tolerance s = take 6 agent_steps"
    by simp_all
next
  fix p x
  assume "prompt_built e stock_symbol s p"
    and "chat e (api_pos s)
                \<lparr>model = ''gpt-4-0125-preview'',
                 messages = [\<lparr>role = ''user'', content = p\<rparr>],
                 max_tokens = 150\<rparr> = Inl x"
  with agent_llm_stage [of e stock_symbol s p risk_tolerance]
  have "fst (run_analysis e stock_symbol risk_tolerance s) = Inl x
        \<and> steps e stock_symbol risk_tolerance s = take 9 agent_steps"
    by (intro run_stops) simp
  then show "fst (run_analysis e stock_symbol risk_tolerance s) = Inl x"
    and "steps e stock_symbol risk_tolerance s = take 9 agent_steps"
    by simp_all
next
  fix p response x
  assume "prompt_built e stock_symbol s p"
    and "chat e (api_pos s)
                \<lparr>model = ''gpt-4-0125-preview'',
                 messages = [\<lparr>role = ''user'', content = p\<rparr>],
                 max_tokens = 150\<rparr> = Inr response"
    and "first_content response = Inl x"
  with agent_llm_stage [of e stock_symbol s p risk_tolerance]
  have "fst (run_analysis e stock_symbol risk_tolerance s) = Inl x
        \<and> steps e stock_symbol risk_tolerance s = take 9 agent_steps"
    by (intro run_stops) simp
  then show "fst (run_analysis e stock_symbol risk_tolerance s) = Inl x"
    and "steps e stock_symbol risk_tolerance s = take 9 agent_steps"
    by simp_all
next
  fix p response market_outlook x
  assume "prompt_built e stock_symbol s p"
    and "chat e (api_pos s)
                \<lparr>model = ''gpt-4-0125-preview'',
                 messages = [\<lparr>role = ''user'', content = p\<rparr>],
                 max_tokens = 150\<rparr> = Inr response"
    and "first_content response = Inr market_outlook"
    and "chat e (Suc (api_pos s))
                \<lparr>model = ''gpt-4-0125-preview'',
                 messages = [\<lparr>role = ''user'',
                              content = recommendation_prompt market_outlook risk_tolerance\<rparr>],
                 max_tokens = 200\<rparr> = Inl x"
  with agent_llm_stage [of e stock_symbol s p risk_tolerance]
  have "fst (run_analysis e stock_symbol risk_tolerance s) = Inl x
        \<and> steps e stock_symbol risk_tolerance s = agent_steps"
    by (intro run_stops) simp
  then show "fst (run_analysis e stock_symbol risk_tolerance s) = Inl x"
    and "steps e stock_symbol risk_tolerance s = agent_steps"
    by simp_all
next
  fix p response market_outlook response' x
  assume "prompt_built e stock_symbol s p"
    and "chat e (api_pos s)
                \<lparr>model = ''gpt-4-0125-preview'',
                 messages = [\<lparr>role = ''user'', content = p\<rparr>],
                 max_tokens = 150\<rparr> = Inr response"
    and "first_content response = Inr market_outlook"
    and "chat e (Suc (api_pos s))
                \<lparr>model = ''gpt-4-0125-preview'',
                 messages = [\<lparr>role = ''user'',
                              content = recommendation_prompt market_outlook risk_tolerance\<rparr>],
                 max_tokens = 200\<rparr> = Inr response'"
    and "first_content response' = Inl x"
  with agent_llm_stage [of e stock_symbol s p risk_tolerance]
  have "fst (run_analysis e stock_symbol risk_tolerance s) = Inl x
        \<and> steps e stock_symbol risk_tolerance s = agent_steps"
    by (intro run_stops) simp
  then show "fst (run_analysis e stock_symbol risk_tolerance s) = Inl x"
    and "steps e stock_symbol risk_tolerance s = agent_steps"
    by simp_all
qed

theorem run_analysis_pipeline_witness:
  "fst (run_analysis demo_env ''AAPL'' ''moderate'' init) = Inr ()
   \<and> (steps demo_env ''AAPL'' ''moderate'' init
         = agent_steps @ report_steps @ [''execute_buy_order'', ''print'']
      \<or> steps demo_env ''AAPL'' ''moderate'' init
         = agent_steps @ report_steps @ [''execute_sell_order'', ''print'']
      \<or> steps demo_env ''AAPL'' ''moderate'' init
         = agent_steps @ report_steps @ [''print''])
   \<and> prefix (steps no_api_env ''AAPL'' ''moderate'' init) agent_steps
   \<and> (fst (run_analysis no_sentiment_env ''AAPL'' ''moderate'' init)
         = Inl (ExternalError ''corpus not found'')
      \<and> steps no_sentiment_env ''AAPL'' ''moderate'' init = take 4 agent_steps)
   \<and> (fst (run_analysis (no_score_env ''AAPL reports quarterly earnings'')
              ''AAPL'' ''moderate'' init)
         = Inl (ExternalError ''corpus not found'')
      \<and> steps (no_score_env ''AAPL reports quarterly earnings'') ''AAPL'' ''moderate'' init
         = take 5 agent_steps)
   \<and> (fst (run_analysis (no_score_env ''AAPL faces regulatory scrutiny'')
              ''AAPL'' ''moderate'' init)
         = Inl (ExternalError ''corpus not found'')
      \<and> steps (no_score_env ''AAPL faces regulatory scrutiny'') ''AAPL'' ''moderate'' init
         = take 6 agent_steps)
   \<and> (fst (run_analysis no_api_env ''AAPL'' ''moderate'' init)
         = Inl (ExternalError ''rate limit'')
      \<and> steps no_api_env ''AAPL'' ''moderate'' init = take 9 agent_steps)
   \<and> (fst (run_analysis no_choice_env ''AAPL'' ''moderate'' init) = Inl IndexError
      \<and> steps no_choice_env ''AAPL'' ''moderate'' init = take 9 agent_steps)
   \<and> (fst (run_analysis one_call_env ''AAPL'' ''moderate'' init)
         = Inl (ExternalError ''rate limit'')
      \<and> steps one_call_env ''AAPL'' ''moderate'' init = agent_steps)
   \<and> (fst (run_analysis one_answer_env ''AAPL'' ''moderate'' init) = Inl AttributeError
      \<and> steps one_answer_env ''AAPL'' ''moderate'' init = agent_steps)"
proof -
  have w1: "fst (run_analysis demo_env ''AAPL'' ''moderate'' init) = Inr ()"
    by (rule run_analysis_fst_returns [OF demo_agent_returns])
  have w2: "steps demo_env ''AAPL'' ''moderate'' init
         = agent_steps @ report_steps @ [''execute_buy_order'', ''print'']
      \<or> steps demo_env ''AAPL'' ''moderate'' init
         = agent_steps @ report_steps @ [''execute_sell_order'', ''print'']
      \<or> steps demo_env ''AAPL'' ''moderate'' init
         = agent_steps @ report_steps @ [''print'']"
    by (rule run_analysis_pipeline [of demo_env "''AAPL''" "''moderate''" init,
          THEN conjunct2, THEN conjunct1, rule_format]) (rule w1)
  have w3: "prefix (steps no_api_env ''AAPL'' ''moderate'' init) agent_steps"
    by (rule run_analysis_pipeline [of no_api_env "''AAPL''" "''moderate''" init,
          THEN conjunct1, rule_format])
      (rule run_analysis_fst_raises [OF no_api_agent_raises])
  have "polarity no_sentiment_env (''AAPL'' @ '' announces new product line'')
          = Inl (ExternalError ''corpus not found'')"
    by (simp add: no_sentiment_env_def)
  then have w4: "fst (run_analysis no_sentiment_env ''AAPL'' ''moderate'' init)
         = Inl (ExternalError ''corpus not found'')
      \<and> steps no_sentiment_env ''AAPL'' ''moderate'' init = take 4 agent_steps"
    by (rule run_analysis_pipeline [of no_sentiment_env "''AAPL''" "''moderate''" init,
          THEN conjunct2, THEN conjunct2, THEN conjunct1, rule_format])
  let ?e = "no_score_env ''AAPL reports quarterly earnings''"
  have "polarity ?e (''AAPL'' @ '' announces new product line'') = Inr (1 / 4)
        \<and> polarity ?e (''AAPL'' @ '' reports quarterly earnings'')
            = Inl (ExternalError ''corpus not found'')"
    by (simp add: no_score_env_def)
  then have w5: "fst (run_analysis ?e ''AAPL'' ''moderate'' init)
         = Inl (ExternalError ''corpus not found'')
      \<and> steps ?e ''AAPL'' ''moderate'' init = take 5 agent_steps"
    by (rule run_analysis_pipeline [of ?e "''AAPL''" "''moderate''" init,
          THEN conjunct2, THEN conjunct2, THEN conjunct2, THEN conjunct1, rule_format])
  let ?f = "no_score_env ''AAPL faces regulatory scrutiny''"
  have "polarity ?f (''AAPL'' @ '' announces new product line'') = Inr (1 / 4)
        \<and> polarity ?f (''AAPL'' @ '' reports quarterly earnings'') = Inr (1 / 4)
        \<and> polarity ?f (''AAPL'' @ '' faces regulatory scrutiny'')
            = Inl (ExternalError ''corpus not found'')"
    by (simp add: no_score_env_def)
  then have w6: "fst (run_analysis ?f ''AAPL'' ''moderate'' init)
         = Inl (ExternalError ''corpus not found'')
      \<and> steps ?f ''AAPL'' ''moderate'' init = take 6 agent_steps"
    by (rule run_analysis_pipeline [of ?f "''AAPL''" "''moderate''" init,
          THEN conjunct2, THEN conjunct2, THEN conjunct2, THEN conjunct2, THEN conjunct1,
          rule_format])
  have f: "first_content [Some '' Stable. ''] = Inr ''Stable.''"
    by (simp add: first_content_def strip_def is_space_def is_space2_def is_space3_def)
  have w7: "fst (run_analysis no_api_env ''AAPL'' ''moderate'' init)
         = Inl (ExternalError ''rate limit'')
      \<and> steps no_api_env ''AAPL'' ''moderate'' init = take 9 agent_steps"
  proof -
    have "polarity no_api_env t = Inr (1 / 4)" for t
      by (simp add: no_api_env_def demo_env_def)
    from prompt_built_exists [OF this this this]
    obtain p where p: "prompt_built no_api_env ''AAPL'' init p" by blast
    have c: "chat no_api_env (api_pos init)
               \<lparr>model = ''gpt-4-0125-preview'',
                messages = [\<lparr>role = ''user'', content = p\<rparr>],
                max_tokens = 150\<rparr> = Inl (ExternalError ''rate limit'')"
      by (simp add: no_api_env_def)
    show ?thesis
      by (rule run_analysis_pipeline [of no_api_env "''AAPL''" "''moderate''" init,
            THEN conjunct2, THEN conjunct2, THEN conjunct2, THEN conjunct2, THEN conjunct2,
            THEN conjunct1, rule_format, of p])
        (intro conjI p c)
  qed
  have w8: "fst (run_analysis no_choice_env ''AAPL'' ''moderate'' init) = Inl IndexError
      \<and> steps no_choice_env ''AAPL'' ''moderate'' init = take 9 agent_steps"
  proof -
    have "polarity no_choice_env t = Inr (1 / 4)" for t
      by (simp add: no_choice_env_def demo_env_def)
    from prompt_built_exists [OF this this this]
    obtain p where p: "prompt_built no_choice_env ''AAPL'' init p" by blast
    have c: "chat no_choice_env (api_pos init)
               \<lparr>model = ''gpt-4-0125-preview'',
                messages = [\<lparr>role = ''user'', content = p\<rparr>],
                max_tokens = 150\<rparr> = Inr []"
      by (simp add: no_choice_env_def)
    have g: "first_content [] = Inl IndexError"
      by (simp add: first_content_def)
    show ?thesis
      by (rule run_analysis_pipeline [of no_choice_env "''AAPL''" "''moderate''" init,
            THEN conjunct2, THEN conjunct2, THEN conjunct2, THEN conjunct2, THEN conjunct2,
            THEN conjunct2, THEN conjunct1, rule_format, of p "[]"])
        (intro conjI p c g)
  qed
  have w9: "fst (run_analysis one_call_env ''AAPL'' ''moderate'' init)
         = Inl (ExternalError ''rate limit'')
      \<and> steps one_call_env ''AAPL'' ''moderate'' init = agent_steps"
  proof -
    have "polarity one_call_env t = Inr (1 / 4)" for t
      by (simp add: one_call_env_def demo_env_def)
    from prompt_built_exists [OF this this this]
    obtain p where p: "prompt_built one_call_env ''AAPL'' init p" by blast
    have c: "chat one_call_env (api_pos init)
               \<lparr>model = ''gpt-4-0125-preview'',
                messages = [\<lparr>role = ''user'', content = p\<rparr>],
                max_tokens = 150\<rparr> = Inr [Some '' Stable. '']"
      by (simp add: one_call_env_def init_def)
    have d: "chat one_call_env (Suc (api_pos init))
               \<lparr>model = ''gpt-4-0125-preview'',
                messages = [\<lparr>role = ''user'',
                             content = recommendation_prompt ''Stable.'' ''moderate''\<rparr>],
                max_tokens = 200\<rparr> = Inl (ExternalError ''rate limit'')"
      by (simp add: one_call_env_def)
    show ?thesis
      by (rule run_analysis_pipeline [of one_call_env "''AAPL''" "''moderate''" init,
            THEN conjunct2, THEN conjunct2, THEN conjunct2, THEN conjunct2, THEN conjunct2,
            THEN conjunct2, THEN conjunct2, THEN conjunct1, rule_format,
            of p "[Some '' Stable. '']" "''Stable.''"])
        (intro conjI p c f d)
  qed
  have w10: "fst (run_analysis one_answer_env ''AAPL'' ''moderate'' init) = Inl AttributeError
      \<and> steps one_answer_env ''AAPL'' ''moderate'' init = agent_steps"
  proof -
    have "polarity one_answer_env t = Inr (1 / 4)" for t
      by (simp add: one_answer_env_def demo_env_def)
    from prompt_built_exists [OF this this this]
    obtain p where p: "prompt_built one_answer_env ''AAPL'' init p" by blast
    have c: "chat one_answer_env (api_pos init)
               \<lparr>model = ''gpt-4-0125-preview'',
                messages = [\<lparr>role = ''user'', content = p\<rparr>],
                max_tokens = 150\<rparr> = Inr [Some '' Stable. '']"
      by (simp add: one_answer_env_def init_def)
    have d: "chat one_answer_env (Suc (api_pos init))
               \<lparr>model = ''gpt-4-0125-preview'',
                messages = [\<lparr>role = ''user'',
                             content = recommendation_prompt ''Stable.'' ''moderate''\<rparr>],
                max_tokens = 200\<rparr> = Inr [None]"
      by (simp add: one_answer_env_def)
    have g: "first_content [None] = Inl AttributeError"
      by (simp add: first_content_def)
    show ?thesis
      by (rule run_analysis_pipeline [of one_answer_env "''AAPL''" "''moderate''" init,
            THEN conjunct2, THEN conjunct2, THEN conjunct2, THEN conjunct2, THEN conjunct2,
            THEN conjunct2, THEN conjunct2, THEN conjunct2, rule_format,
            of p "[Some '' Stable. '']" "''Stable.''" "[None]"])
        (intro conjI p c f d g)
  qed
  show ?thesis
    by (intro conjI w1 w2 w3 w4 w5 w6 w7 w8 w9 w10)
qed

theorem run_analysis_cut_short_counterexample:
  "fst (run_analysis no_api_env ''AAPL'' ''moderate'' init) = Inl (ExternalError ''rate limit'')
   \<and> steps no_api_env ''AAPL'' ''moderate'' init =
       [''financial_advisor_agent'', ''fetch_stock_data'', ''fetch_news_articles'',
        ''analyze_sentiment'', ''analyze_sentiment'', ''analyze_sentiment'',
        ''fetch_economic_indicators'', ''analyze_market_conditions'',
        ''chat.completions.create'']"
  using run_analysis_fst_raises [OF no_api_agent_raises]
    run_events_raises [OF no_api_agent_raises] no_api_agent_steps
  by (simp add: steps_def)

section \<open>The stock quote record\<close>

lemma run_analysis_stock_data:
  "stock_data (snd (run_analysis e sy risk s))
     = stock_data (snd (financial_advisor_agent e sy risk s))"
proof (cases "fst (financial_advisor_agent e sy risk s)")
  case (Inl x)
  then show ?thesis by (simp add: run_analysis_raises)
next
  case (Inr r)
  then show ?thesis by (simp add: run_analysis_returns)
qed

text \<open>
  C3, as amended. The stock quote record consists of exactly the fields symbol, price
  and change. \<^verbatim>\<open>financial_advisor_agent\<close> stores it in the field \<^verbatim>\<open>stock_data\<close> of the
  system, and it is still there when \<^verbatim>\<open>run_analysis\<close> finishes, whether the run returns
  or raises. A run that returns prints it once.
\<close>

theorem stock_record_kept:
  "(\<exists>p c. fst (fetch_stock_data e stock_symbol s)
             = Inr (Dict [(''symbol'', Str stock_symbol), (''price'', Num p), (''change'', Num c)]))
   \<and> fst (fetch_stock_data e stock_symbol s)
       = Inr (stock_data (snd (run_analysis e stock_symbol risk_tolerance s)))
   \<and> (fst (run_analysis e stock_symbol risk_tolerance s) = Inr () \<longrightarrow>
        filter (prefix ''Stock Data: '') (printed (run_events e stock_symbol risk_tolerance s))
          = [''Stock Data: ''
             @ py_str e (stock_data (snd (run_analysis e stock_symbol risk_tolerance s)))])"
proof (intro conjI impI)
  show "\<exists>p c. fst (fetch_stock_data e stock_symbol s)
             = Inr (Dict [(''symbol'', Str stock_symbol), (''price'', Num p), (''change'', Num c)])"
    by (simp add: fetch_stock_data_eq)
next
  show "fst (fetch_stock_data e stock_symbol s)
       = Inr (stock_data (snd (run_analysis e stock_symbol risk_tolerance s)))"
    by (simp add: run_analysis_stock_data agent_stock_data [symmetric])
next
  assume ok: "fst (run_analysis e stock_symbol risk_tolerance s) = Inr ()"
  show "filter (prefix ''Stock Data: '') (printed (run_events e stock_symbol risk_tolerance s))
          = [''Stock Data: ''
             @ py_str e (stock_data (snd (run_analysis e stock_symbol risk_tolerance s)))]"
  proof (cases "fst (financial_advisor_agent e stock_symbol risk_tolerance s)")
    case (Inl x)
    from run_analysis_fst_raises [OF Inl] ok show ?thesis by simp
  next
    case (Inr r)
    from run_events_returns [OF Inr] show ?thesis
      by (simp add: printed_append agent_quiet(1) run_analysis_stock_data NL_def)
  qed
qed

theorem stock_record_kept_witness:
  "filter (prefix ''Stock Data: '') (printed (run_events demo_env ''AAPL'' ''moderate'' init))
     = [''Stock Data: ''
        @ py_str demo_env (stock_data (snd (run_analysis demo_env ''AAPL'' ''moderate'' init)))]"
  using stock_record_kept [of demo_env "''AAPL''" init "''moderate''"]
    run_analysis_fst_returns [OF demo_agent_returns]
  by simp

theorem stock_record_retained_counterexample:
  "fst (run_analysis demo_env ''AAPL'' ''moderate'' init) = Inr ()
   \<and> stock_data (snd (run_analysis demo_env ''AAPL'' ''moderate'' init))
       = Dict [(''symbol'', Str ''AAPL''), (''price'', Num 275), (''change'', Num 0)]"
  using run_analysis_fst_returns [OF demo_agent_returns] demo_quote
    agent_stock_data [of demo_env "''AAPL''" init "''moderate''"]
  by (simp add: run_analysis_stock_data)

section \<open>The sentiment average\<close>

text \<open>
  C4. When the sentiment library scores the three headlines that \<^verbatim>\<open>fetch_news_articles\<close>
  returns, each score between -1 and 1 as a polarity is, \<^verbatim>\<open>financial_advisor_agent\<close>
  leaves in \<^verbatim>\<open>news_sentiment\<close> the sum of the three scores divided by three, whatever
  happens later in the call. Sum and quotient are those of Python's floats: \<^verbatim>\<open>sum\<close>
  adds the scores from the left, starting from 0, and each addition and the division
  round to binary64.
\<close>

theorem news_sentiment_is_average:
  assumes "fst (fetch_news_articles stock_symbol s) = Inr [h1, h2, h3]"
      and "polarity e h1 = Inr a" and "polarity e h2 = Inr b" and "polarity e h3 = Inr c"
      and "\<bar>a\<bar> \<le> 1" and "\<bar>b\<bar> \<le> 1" and "\<bar>c\<bar> \<le> 1"
  shows "news_sentiment (snd (financial_advisor_agent e stock_symbol risk_tolerance s))
           = Atom (Num (fl_div (py_sum [a, b, c]) 3))
       \<and> py_sum [a, b, c] = fl_add (fl_add (fl_add 0 a) b) c"
proof -
  from assms(1) have h:
    "h1 = stock_symbol @ '' announces new product line''"
    "h2 = stock_symbol @ '' reports quarterly earnings''"
    "h3 = stock_symbol @ '' faces regulatory scrutiny''"
    by (simp_all add: fetch_news_articles_eq)
  have "news_sentiment (snd (financial_advisor_agent e stock_symbol risk_tolerance s))
           = Atom (Num (fl_div (py_sum [a, b, c]) 3))"
    using assms(2-4) unfolding h
    by (simp add: agent_unfold split: sum.splits)
  then show ?thesis by (simp add: py_sum_def)
qed

theorem news_sentiment_is_average_witness:
  "news_sentiment (snd (financial_advisor_agent tenths_env ''AAPL'' ''moderate'' init))
     = Atom (Num (7205759403792795 / 36028797018963968))
   \<and> news_sentiment (snd (financial_advisor_agent demo_env ''AAPL'' ''moderate'' init))
     = Atom (Num (1 / 4))"
proof
  have n: "fst (fetch_news_articles ''AAPL'' init)
             = Inr [''AAPL announces new product line'', ''AAPL reports quarterly earnings'',
                    ''AAPL faces regulatory scrutiny'']"
    by (simp add: fetch_news_articles_eq)
  have p: "polarity tenths_env ''AAPL announces new product line'' = Inr (rnd64 (1 / 10))"
    "polarity tenths_env ''AAPL reports quarterly earnings'' = Inr (rnd64 (2 / 10))"
    "polarity tenths_env ''AAPL faces regulatory scrutiny'' = Inr (rnd64 (3 / 10))"
    by (simp_all add: tenths_env_def)
  have r: "\<bar>rnd64 (1 / 10)\<bar> \<le> 1" "\<bar>rnd64 (2 / 10)\<bar> \<le> 1" "\<bar>rnd64 (3 / 10)\<bar> \<le> 1"
    by code_simp+
  show "news_sentiment (snd (financial_advisor_agent tenths_env ''AAPL'' ''moderate'' init))
          = Atom (Num (7205759403792795 / 36028797018963968))"
    using news_sentiment_is_average [OF n p r, of "''moderate''"]
    by (simp only: binary64_samples(1))
next
  have n: "fst (fetch_news_articles ''AAPL'' init)
             = Inr [''AAPL announces new product line'', ''AAPL reports quarterly earnings'',
                    ''AAPL faces regulatory scrutiny'']"
    by (simp add: fetch_news_articles_eq)
  have p: "polarity demo_env t = Inr (1 / 4)" for t
    by (simp add: demo_env_def)
  have q: "fl_div (py_sum [1 / 4, 1 / 4, 1 / 4]) 3 = 1 / 4"
    by code_simp
  show "news_sentiment (snd (financial_advisor_agent demo_env ''AAPL'' ''moderate'' init))
          = Atom (Num (1 / 4))"
    using news_sentiment_is_average [OF n p p p, of "''moderate''"] by (simp add: q)
qed

section \<open>The chat-completion API\<close>

lemma analyze_market_conditions_eq:
  "analyze_market_conditions e sd sentiment ei s =
     (case market_prompt e sd sentiment ei of
        Inl x \<Rightarrow> (Inl x, s\<lparr>trace := trace s @ [AnalyzeMarketConditions]\<rparr>)
      | Inr p \<Rightarrow>
          (case chat e (api_pos s)
                  \<lparr>model = ''gpt-4-0125-preview'',
                   messages = [\<lparr>role = ''user'', content = p\<rparr>],
                   max_tokens = 150\<rparr> of
             Inl x \<Rightarrow> Inl x
           | Inr response \<Rightarrow> first_content response,
           s\<lparr>api_pos := Suc (api_pos s),
              trace := trace s
                @ [AnalyzeMarketConditions,
                   ChatCompletion
                     \<lparr>model = ''gpt-4-0125-preview'',
                      messages = [\<lparr>role = ''user'', content = p\<rparr>],
                      max_tokens = 150\<rparr>]\<rparr>))"
  by (simp add: analyze_market_conditions_def monad_defs split: sum.splits)

lemma generate_investment_recommendation_eq:
  "generate_investment_recommendation e market_outlook risk s =
     (case chat e (api_pos s)
             \<lparr>model = ''gpt-4-0125-preview'',
              messages = [\<lparr>role = ''user'',
                           content = recommendation_prompt market_outlook risk\<rparr>],
              max_tokens = 200\<rparr> of
        Inl x \<Rightarrow> Inl x
      | Inr response \<Rightarrow> first_content response,
      s\<lparr>api_pos := Suc (api_pos s),
         trace := trace s
           @ [GenerateInvestmentRecommendation,
              ChatCompletion
                \<lparr>model = ''gpt-4-0125-preview'',
                 messages = [\<lparr>role = ''user'',
                              content = recommendation_prompt market_outlook risk\<rparr>],
                 max_tokens = 200\<rparr>]\<rparr>)"
  by (simp add: generate_investment_recommendation_def monad_defs split: sum.splits)

lemma agent_requests:
  "\<exists>evs. trace (snd (financial_advisor_agent e sy risk s)) = trace s @ evs
      \<and> list_all well_formed_request (requests evs)
      \<and> prefix (map max_tokens (requests evs)) [150, 200]"
  by (simp add: agent_unfold well_formed_request_def split: sum.splits)

lemma run_requests:
  "list_all well_formed_request (requests (run_events e sy risk s))
   \<and> prefix (map max_tokens (requests (run_events e sy risk s))) [150, 200]"
proof -
  have a: "list_all well_formed_request (requests (agent_events e sy risk s))
           \<and> prefix (map max_tokens (requests (agent_events e sy risk s))) [150, 200]"
    using agent_requests [of e sy risk s] by (auto simp: agent_events_def)
  show ?thesis
  proof (cases "fst (financial_advisor_agent e sy risk s)")
    case (Inl x)
    from run_events_raises [OF Inl] a show ?thesis by simp
  next
    case (Inr r)
    from run_events_returns [OF Inr] a show ?thesis by (simp add: requests_append)
  qed
qed

text \<open>
  C5. Each of the two methods that call the chat-completion API sends at most one
  request, made of the model identifier, a list of exactly one message, whose role is
  user and whose content is the prompt, and the token cap: 150 for
  \<^verbatim>\<open>analyze_market_conditions\<close> (which sends none when building its prompt raises), 200
  for \<^verbatim>\<open>generate_investment_recommendation\<close>. When the response has a first choice with
  text, the method returns that text stripped. Every request of a run of
  \<^verbatim>\<open>run_analysis\<close> has this shape, the first with the cap 150 and the second with 200.
\<close>

theorem chat_completion_calls:
  "requests (trace (snd (analyze_market_conditions e sd sentiment ei s))) =
     requests (trace s)
     @ (case market_prompt e sd sentiment ei of
          Inl _ \<Rightarrow> []
        | Inr p \<Rightarrow> [\<lparr>model = ''gpt-4-0125-preview'',
                     messages = [\<lparr>role = ''user'', content = p\<rparr>],
                     max_tokens = 150\<rparr>])
   \<and> requests (trace (snd (generate_investment_recommendation e market_outlook risk_tolerance s))) =
       requests (trace s)
       @ [\<lparr>model = ''gpt-4-0125-preview'',
           messages = [\<lparr>role = ''user'',
                        content = recommendation_prompt market_outlook risk_tolerance\<rparr>],
           max_tokens = 200\<rparr>]
   \<and> (\<forall>p t rest.
         market_prompt e sd sentiment ei = Inr p
         \<and> chat e (api_pos s)
               \<lparr>model = ''gpt-4-0125-preview'',
                messages = [\<lparr>role = ''user'', content = p\<rparr>],
                max_tokens = 150\<rparr> = Inr (Some t # rest) \<longrightarrow>
         fst (analyze_market_conditions e sd sentiment ei s) = Inr (strip t))
   \<and> (\<forall>t rest.
         chat e (api_pos s)
            \<lparr>model = ''gpt-4-0125-preview'',
             messages = [\<lparr>role = ''user'',
                          content = recommendation_prompt market_outlook risk_tolerance\<rparr>],
             max_tokens = 200\<rparr> = Inr (Some t # rest) \<longrightarrow>
         fst (generate_investment_recommendation e market_outlook risk_tolerance s)
           = Inr (strip t))
   \<and> list_all well_formed_request (requests (run_events e stock_symbol risk_tolerance s))
   \<and> prefix (map max_tokens (requests (run_events e stock_symbol risk_tolerance s))) [150, 200]"
  using run_requests [of e stock_symbol risk_tolerance s]
  by (simp add: analyze_market_conditions_eq generate_investment_recommendation_eq
      requests_append first_content_def split: sum.splits)

theorem chat_completion_calls_witness:
  "fst (analyze_market_conditions demo_env
          (Dict [(''symbol'', Str ''AAPL''), (''price'', Num 275), (''change'', Num 0)])
          (Atom (Num (1 / 4)))
          (Dict [(''gdp_growth'', Num (3 / 2)), (''unemployment_rate'', Num (13 / 2)),
                 (''inflation_rate'', Num (5 / 2))])
          init) = Inr ''Stable.''
   \<and> fst (generate_investment_recommendation demo_env ''Stable.'' ''moderate'' init)
       = Inr ''Buy now, SELL later.''
   \<and> fst (generate_investment_recommendation padded_env ''Stable.'' ''moderate'' init)
       = Inr ''Buy''"
proof -
  let ?sd = "Dict [(''symbol'', Str ''AAPL''), (''price'', Num 275), (''change'', Num 0)]"
  let ?ei = "Dict [(''gdp_growth'', Num (3 / 2)), (''unemployment_rate'', Num (13 / 2)),
                   (''inflation_rate'', Num (5 / 2))]"
  obtain p where p: "market_prompt demo_env ?sd (Atom (Num (1 / 4))) ?ei = Inr p"
    by (cases "market_prompt demo_env ?sd (Atom (Num (1 / 4))) ?ei") simp_all
  have c: "chat demo_env (api_pos init)
             \<lparr>model = ''gpt-4-0125-preview'',
              messages = [\<lparr>role = ''user'', content = q\<rparr>],
              max_tokens = 150\<rparr> = Inr [Some '' Stable. '']" for q
    by (simp add: demo_env_def)
  have d: "chat demo_env (api_pos init)
             \<lparr>model = ''gpt-4-0125-preview'',
              messages = [\<lparr>role = ''user'', content = q\<rparr>],
              max_tokens = 200\<rparr> = Inr [Some '' Buy now, SELL later. '']" for q
    by (simp add: demo_env_def)
  have f: "chat padded_env (api_pos init)
             \<lparr>model = ''gpt-4-0125-preview'',
              messages = [\<lparr>role = ''user'', content = q\<rparr>],
              max_tokens = 200\<rparr>
           = Inr [Some ([CHR 0xC2, CHR 0xA0] @ ''Buy'' @ [CHR 0xE3, CHR 0x80, CHR 0x80])]" for q
    by (simp add: padded_env_def)
  show ?thesis
    using chat_completion_calls [of demo_env ?sd "Atom (Num (1 / 4))" ?ei init
        "''Stable.''" "''moderate''" "''AAPL''"]
      chat_completion_calls [of padded_env ?sd "Atom (Num (1 / 4))" ?ei init
        "''Stable.''" "''moderate''" "''AAPL''"] p c d f
    by (simp add: strip_def is_space_def is_space2_def is_space3_def)
qed

section \<open>Errors\<close>

lemma agent_raises_fails_with:
  assumes "fst (financial_advisor_agent e sy risk s) = Inl x"
  shows "fails_with e sy risk s x"
  using run_analysis_fst_raises [OF assms] run_events_raises [OF assms]
  by (simp add: fails_with_def agent_quiet)

lemma agent_raises_first_score:
  "polarity e (sy @ '' announces new product line'') = Inl x \<Longrightarrow>
   fst (financial_advisor_agent e sy risk s) = Inl x"
  by (simp add: agent_unfold)

lemma agent_raises_second_score:
  "polarity e (sy @ '' announces new product line'') = Inr a \<Longrightarrow>
   polarity e (sy @ '' reports quarterly earnings'') = Inl x \<Longrightarrow>
   fst (financial_advisor_agent e sy risk s) = Inl x"
  by (simp add: agent_unfold)

lemma agent_raises_third_score:
  "polarity e (sy @ '' announces new product line'') = Inr a \<Longrightarrow>
   polarity e (sy @ '' reports quarterly earnings'') = Inr b \<Longrightarrow>
   polarity e (sy @ '' faces regulatory scrutiny'') = Inl x \<Longrightarrow>
   fst (financial_advisor_agent e sy risk s) = Inl x"
  by (simp add: agent_unfold)

lemma agent_raises_first_call:
  assumes "polarity e (sy @ '' announces new product line'') = Inr a"
      and "polarity e (sy @ '' reports quarterly earnings'') = Inr b"
      and "polarity e (sy @ '' faces regulatory scrutiny'') = Inr c"
      and "fst (fetch_stock_data e sy s) = Inr sd"
      and "fst (fetch_economic_indicators e (s\<lparr>rng_pos := Suc (Suc (rng_pos s))\<rparr>)) = Inr ei"
      and "market_prompt e sd (Atom (Num (fl_div (py_sum [a, b, c]) 3))) ei = Inr p"
      and "chat e (api_pos s)
             \<lparr>model = ''gpt-4-0125-preview'',
              messages = [\<lparr>role = ''user'', content = p\<rparr>],
              max_tokens = 150\<rparr> = Inl x"
  shows "fst (financial_advisor_agent e sy risk s) = Inl x"
proof -
  have sd: "sd = Dict [(''symbol'', Str sy),
                 (''price'', Num (round2 (fl_add 50 (fl_mul 450 (rand e (rng_pos s)))))),
                 (''change'', Num (round2 (fl_add (- 5) (fl_mul 10 (rand e (Suc (rng_pos s)))))))]"
    using assms(4) by (simp add: fetch_stock_data_eq)
  have ei: "ei = Dict [(''gdp_growth'',
                    Num (round2 (fl_add (- 2) (fl_mul 7 (rand e (Suc (Suc (rng_pos s)))))))),
                 (''unemployment_rate'',
                    Num (round2 (fl_add 3 (fl_mul 7 (rand e (Suc (Suc (Suc (rng_pos s))))))))),
                 (''inflation_rate'',
                    Num (round2 (fl_add 0 (fl_mul 5 (rand e (Suc (Suc (Suc (Suc (rng_pos s))))))))))]"
    using assms(5) by (simp add: fetch_economic_indicators_eq)
  show ?thesis
    using assms(1-3,6,7) unfolding sd ei
    by (simp add: agent_unfold)
qed

lemma agent_raises_second_call:
  assumes "polarity e (sy @ '' announces new product line'') = Inr a"
      and "polarity e (sy @ '' reports quarterly earnings'') = Inr b"
      and "polarity e (sy @ '' faces regulatory scrutiny'') = Inr c"
      and "fst (fetch_stock_data e sy s) = Inr sd"
      and "fst (fetch_economic_indicators e (s\<lparr>rng_pos := Suc (Suc (rng_pos s))\<rparr>)) = Inr ei"
      and "market_prompt e sd (Atom (Num (fl_div (py_sum [a, b, c]) 3))) ei = Inr p"
      and "chat e (api_pos s)
             \<lparr>model = ''gpt-4-0125-preview'',
              messages = [\<lparr>role = ''user'', content = p\<rparr>],
              max_tokens = 150\<rparr> = Inr response"
      and "first_content response = Inr market_outlook"
      and "chat e (Suc (api_pos s))
             \<lparr>model = ''gpt-4-0125-preview'',
              messages = [\<lparr>role = ''user'',
                           content = recommendation_prompt market_outlook risk\<rparr>],
              max_tokens = 200\<rparr> = Inl x"
  shows "fst (financial_advisor_agent e sy risk s) = Inl x"
proof -
  have sd: "sd = Dict [(''symbol'', Str sy),
                 (''price'', Num (round2 (fl_add 50 (fl_mul 450 (rand e (rng_pos s)))))),
                 (''change'', Num (round2 (fl_add (- 5) (fl_mul 10 (rand e (Suc (rng_pos s)))))))]"
    using assms(4) by (simp add: fetch_stock_data_eq)
  have ei: "ei = Dict [(''gdp_growth'',
                    Num (round2 (fl_add (- 2) (fl_mul 7 (rand e (Suc (Suc (rng_pos s)))))))),
                 (''unemployment_rate'',
                    Num (round2 (fl_add 3 (fl_mul 7 (rand e (Suc (Suc (Suc (rng_pos s))))))))),
                 (''inflation_rate'',
                    Num (round2 (fl_add 0 (fl_mul 5 (rand e (Suc (Suc (Suc (Suc (rng_pos s))))))))))]"
    using assms(5) by (simp add: fetch_economic_indicators_eq)
  show ?thesis
    using assms(1-3,6-9) unfolding sd ei
    by (simp add: agent_unfold)
qed

text \<open>
  C6. No exception is caught. If the sentiment library raises on one of the three
  headlines, or the chat-completion API raises on the first or on the second request
  of the run, then \<^verbatim>\<open>run_analysis\<close> raises that same exception, and the run has printed
  nothing (no report, no recommendation, no no-action message) and placed no order.
  In the last two cases \<open>sd\<close> and \<open>ei\<close> are the records the run fetched and \<open>p\<close> is the
  prompt built from them. More generally, whatever \<^verbatim>\<open>financial_advisor_agent\<close> raises
  leaves \<^verbatim>\<open>run_analysis\<close> unchanged and in the same way.
\<close>

theorem errors_propagate:
  "(\<forall>x. polarity e (stock_symbol @ '' announces new product line'') = Inl x \<longrightarrow>
        fails_with e stock_symbol risk_tolerance s x)
   \<and> (\<forall>a x. polarity e (stock_symbol @ '' announces new product line'') = Inr a
          \<and> polarity e (stock_symbol @ '' reports quarterly earnings'') = Inl x \<longrightarrow>
        fails_with e stock_symbol risk_tolerance s x)
   \<and> (\<forall>a b x. polarity e (stock_symbol @ '' announces new product line'') = Inr a
          \<and> polarity e (stock_symbol @ '' reports quarterly earnings'') = Inr b
          \<and> polarity e (stock_symbol @ '' faces regulatory scrutiny'') = Inl x \<longrightarrow>
        fails_with e stock_symbol risk_tolerance s x)
   \<and> (\<forall>a b c sd ei p x.
          polarity e (stock_symbol @ '' announces new product line'') = Inr a
          \<and> polarity e (stock_symbol @ '' reports quarterly earnings'') = Inr b
          \<and> polarity e (stock_symbol @ '' faces regulatory scrutiny'') = Inr c
          \<and> fst (fetch_stock_data e stock_symbol s) = Inr sd
          \<and> fst (fetch_economic_indicators e (s\<lparr>rng_pos := Suc (Suc (rng_pos s))\<rparr>)) = Inr ei
          \<and> market_prompt e sd (Atom (Num (fl_div (py_sum [a, b, c]) 3))) ei = Inr p
          \<and> chat e (api_pos s)
                \<lparr>model = ''gpt-4-0125-preview'',
                 messages = [\<lparr>role = ''user'', content = p\<rparr>],
                 max_tokens = 150\<rparr> = Inl x \<longrightarrow>
        fails_with e stock_symbol risk_tolerance s x)
   \<and> (\<forall>a b c sd ei p response market_outlook x.
          polarity e (stock_symbol @ '' announces new product line'') = Inr a
          \<and> polarity e (stock_symbol @ '' reports quarterly earnings'') = Inr b
          \<and> polarity e (stock_symbol @ '' faces regulatory scrutiny'') = Inr c
          \<and> fst (fetch_stock_data e stock_symbol s) = Inr sd
          \<and> fst (fetch_economic_indicators e (s\<lparr>rng_pos := Suc (Suc (rng_pos s))\<rparr>)) = Inr ei
          \<and> market_prompt e sd (Atom (Num (fl_div (py_sum [a, b, c]) 3))) ei = Inr p
          \<and> chat e (api_pos s)
                \<lparr>model = ''gpt-4-0125-preview'',
                 messages = [\<lparr>role = ''user'', content = p\<rparr>],
                 max_tokens = 150\<rparr> = Inr response
          \<and> first_content response = Inr market_outlook
          \<and> chat e (Suc (api_pos s))
                \<lparr>model = ''gpt-4-0125-preview'',
                 messages = [\<lparr>role = ''user'',
                              content = recommendation_prompt market_outlook risk_tolerance\<rparr>],
                 max_tokens = 200\<rparr> = Inl x \<longrightarrow>
        fails_with e stock_symbol risk_tolerance s x)
   \<and> (\<forall>x. fst (financial_advisor_agent e stock_symbol risk_tolerance s) = Inl x \<longrightarrow>
        fails_with e stock_symbol risk_tolerance s x)"
proof (intro conjI allI impI; (elim conjE)?)
  fix x
  assume "polarity e (stock_symbol @ '' announces new product line'') = Inl x"
  then show "fails_with e stock_symbol risk_tolerance s x"
    by (intro agent_raises_fails_with agent_raises_first_score)
next
  fix a x
  assume "polarity e (stock_symbol @ '' announces new product line'') = Inr a"
    and "polarity e (stock_symbol @ '' reports quarterly earnings'') = Inl x"
  then show "fails_with e stock_symbol risk_tolerance s x"
    by (intro agent_raises_fails_with agent_raises_second_score)
next
  fix a b x
  assume "polarity e (stock_symbol @ '' announces new product line'') = Inr a"
    and "polarity e (stock_symbol @ '' reports quarterly earnings'') = Inr b"
    and "polarity e (stock_symbol @ '' faces regulatory scrutiny'') = Inl x"
  then show "fails_with e stock_symbol risk_tolerance s x"
    by (intro agent_raises_fails_with agent_raises_third_score)
next
  fix a b c sd ei p x
  assume "polarity e (stock_symbol @ '' announces new product line'') = Inr a"
    and "polarity e (stock_symbol @ '' reports quarterly earnings'') = Inr b"
    and "polarity e (stock_symbol @ '' faces regulatory scrutiny'') = Inr c"
    and "fst (fetch_stock_data e stock_symbol s) = Inr sd"
    and "fst (fetch_economic_indicators e (s\<lparr>rng_pos := Suc (Suc (rng_pos s))\<rparr>)) = Inr ei"
    and "market_prompt e sd (Atom (Num (fl_div (py_sum [a, b, c]) 3))) ei = Inr p"
    and "chat e (api_pos s)
           \<lparr>model = ''gpt-4-0125-preview'',
            messages = [\<lparr>role = ''user'', content = p\<rparr>],
            max_tokens = 150\<rparr> = Inl x"
  then show "fails_with e stock_symbol risk_tolerance s x"
    by (intro agent_raises_fails_with agent_raises_first_call)
next
  fix a b c sd ei p response market_outlook x
  assume "polarity e (stock_symbol @ '' announces new product line'') = Inr a"
    and "polarity e (stock_symbol @ '' reports quarterly earnings'') = Inr b"
    and "polarity e (stock_symbol @ '' faces regulatory scrutiny'') = Inr c"
    and "fst (fetch_stock_data e stock_symbol s) = Inr sd"
    and "fst (fetch_economic_indicators e (s\<lparr>rng_pos := Suc (Suc (rng_pos s))\<rparr>)) = Inr ei"
    and "market_prompt e sd (Atom (Num (fl_div (py_sum [a, b, c]) 3))) ei = Inr p"
    and "chat e (api_pos s)
           \<lparr>model = ''gpt-4-0125-preview'',
            messages = [\<lparr>role = ''user'', content = p\<rparr>],
            max_tokens = 150\<rparr> = Inr response"
    and "first_content response = Inr market_outlook"
    and "chat e (Suc (api_pos s))
           \<lparr>model = ''gpt-4-0125-preview'',
            messages = [\<lparr>role = ''user'',
                         content = recommendation_prompt market_outlook risk_tolerance\<rparr>],
            max_tokens = 200\<rparr> = Inl x"
  then show "fails_with e stock_symbol risk_tolerance s x"
    by (intro agent_raises_fails_with agent_raises_second_call)
next
  fix x
  assume "fst (financial_advisor_agent e stock_symbol risk_tolerance s) = Inl x"
  then show "fails_with e stock_symbol risk_tolerance s x"
    by (rule agent_raises_fails_with)
qed

lemma prompt_exists:
  "\<exists>sd ei p. fst (fetch_stock_data e sy s) = Inr sd
      \<and> fst (fetch_economic_indicators e (s\<lparr>rng_pos := Suc (Suc (rng_pos s))\<rparr>)) = Inr ei
      \<and> market_prompt e sd v ei = Inr p"
proof -
  let ?sd = "Dict [(''symbol'', Str sy),
                   (''price'', Num (round2 (fl_add 50 (fl_mul 450 (rand e (rng_pos s)))))),
                   (''change'', Num (round2 (fl_add (- 5) (fl_mul 10 (rand e (Suc (rng_pos s)))))))]"
  let ?ei = "Dict [(''gdp_growth'',
                    Num (round2 (fl_add (- 2) (fl_mul 7 (rand e (Suc (Suc (rng_pos s)))))))),
                   (''unemployment_rate'',
                    Num (round2 (fl_add 3 (fl_mul 7 (rand e (Suc (Suc (Suc (rng_pos s))))))))),
                   (''inflation_rate'',
                    Num (round2 (fl_add 0 (fl_mul 5 (rand e (Suc (Suc (Suc (Suc (rng_pos s))))))))))]"
  have sd: "fst (fetch_stock_data e sy s) = Inr ?sd"
    by (simp add: fetch_stock_data_eq)
  have ei: "fst (fetch_economic_indicators e (s\<lparr>rng_pos := Suc (Suc (rng_pos s))\<rparr>)) = Inr ?ei"
    by (simp add: fetch_economic_indicators_eq)
  obtain p where "market_prompt e ?sd v ?ei = Inr p"
    by (cases "market_prompt e ?sd v ?ei") simp_all
  with sd ei show ?thesis by blast
qed

theorem errors_propagate_witness:
  "fails_with no_sentiment_env ''AAPL'' ''moderate'' init (ExternalError ''corpus not found'')
   \<and> fails_with (no_score_env ''AAPL reports quarterly earnings'') ''AAPL'' ''moderate'' init
        (ExternalError ''corpus not found'')
   \<and> fails_with (no_score_env ''AAPL faces regulatory scrutiny'') ''AAPL'' ''moderate'' init
        (ExternalError ''corpus not found'')
   \<and> fails_with no_api_env ''AAPL'' ''moderate'' init (ExternalError ''rate limit'')
   \<and> fails_with one_call_env ''AAPL'' ''moderate'' init (ExternalError ''rate limit'')"
proof (intro conjI)
  have "polarity no_sentiment_env (''AAPL'' @ '' announces new product line'')
          = Inl (ExternalError ''corpus not found'')"
    by (simp add: no_sentiment_env_def)
  then show "fails_with no_sentiment_env ''AAPL'' ''moderate'' init
               (ExternalError ''corpus not found'')"
    by (rule errors_propagate [of no_sentiment_env "''AAPL''" "''moderate''" init,
          THEN conjunct1, rule_format])
next
  let ?e = "no_score_env ''AAPL reports quarterly earnings''"
  have "polarity ?e (''AAPL'' @ '' announces new product line'') = Inr (1 / 4)
        \<and> polarity ?e (''AAPL'' @ '' reports quarterly earnings'')
            = Inl (ExternalError ''corpus not found'')"
    by (simp add: no_score_env_def)
  then show "fails_with ?e ''AAPL'' ''moderate'' init (ExternalError ''corpus not found'')"
    by (rule errors_propagate [of ?e "''AAPL''" "''moderate''" init,
          THEN conjunct2, THEN conjunct1, rule_format])
next
  let ?e = "no_score_env ''AAPL faces regulatory scrutiny''"
  have "polarity ?e (''AAPL'' @ '' announces new product line'') = Inr (1 / 4)
        \<and> polarity ?e (''AAPL'' @ '' reports quarterly earnings'') = Inr (1 / 4)
        \<and> polarity ?e (''AAPL'' @ '' faces regulatory scrutiny'')
            = Inl (ExternalError ''corpus not found'')"
    by (simp add: no_score_env_def)
  then show "fails_with ?e ''AAPL'' ''moderate'' init (ExternalError ''corpus not found'')"
    by (rule errors_propagate [of ?e "''AAPL''" "''moderate''" init,
          THEN conjunct2, THEN conjunct2, THEN conjunct1, rule_format])
next
  have pol: "polarity no_api_env t = Inr (1 / 4)" for t
    by (simp add: no_api_env_def demo_env_def)
  obtain sd ei p where
    sd: "fst (fetch_stock_data no_api_env ''AAPL'' init) = Inr sd" and
    ei: "fst (fetch_economic_indicators no_api_env (init\<lparr>rng_pos := Suc (Suc (rng_pos init))\<rparr>))
           = Inr ei" and
    p: "market_prompt no_api_env sd (Atom (Num (fl_div (py_sum [1 / 4, 1 / 4, 1 / 4]) 3))) ei = Inr p"
    using prompt_exists [of no_api_env "''AAPL''" init] by blast
  have c: "chat no_api_env (api_pos init)
             \<lparr>model = ''gpt-4-0125-preview'',
              messages = [\<lparr>role = ''user'', content = p\<rparr>],
              max_tokens = 150\<rparr> = Inl (ExternalError ''rate limit'')"
    by (simp add: no_api_env_def)
  show "fails_with no_api_env ''AAPL'' ''moderate'' init (ExternalError ''rate limit'')"
    by (rule errors_propagate [of no_api_env "''AAPL''" "''moderate''" init,
          THEN conjunct2, THEN conjunct2, THEN conjunct2, THEN conjunct1, rule_format,
          of "1 / 4" "1 / 4" "1 / 4" sd ei p])
      (intro conjI pol sd ei p c)
next
  have pol: "polarity one_call_env t = Inr (1 / 4)" for t
    by (simp add: one_call_env_def demo_env_def)
  obtain sd ei p where
    sd: "fst (fetch_stock_data one_call_env ''AAPL'' init) = Inr sd" and
    ei: "fst (fetch_economic_indicators one_call_env
                (init\<lparr>rng_pos := Suc (Suc (rng_pos init))\<rparr>)) = Inr ei" and
    p: "market_prompt one_call_env sd (Atom (Num (fl_div (py_sum [1 / 4, 1 / 4, 1 / 4]) 3))) ei = Inr p"
    using prompt_exists [of one_call_env "''AAPL''" init] by blast
  have c: "chat one_call_env (api_pos init)
             \<lparr>model = ''gpt-4-0125-preview'',
              messages = [\<lparr>role = ''user'', content = p\<rparr>],
              max_tokens = 150\<rparr> = Inr [Some '' Stable. '']"
    by (simp add: one_call_env_def init_def)
  have f: "first_content [Some '' Stable. ''] = Inr ''Stable.''"
    by (simp add: first_content_def strip_def is_space_def is_space2_def is_space3_def)
  have d: "chat one_call_env (Suc (api_pos init))
             \<lparr>model = ''gpt-4-0125-preview'',
              messages = [\<lparr>role = ''user'',
                           content = recommendation_prompt ''Stable.'' ''moderate''\<rparr>],
              max_tokens = 200\<rparr> = Inl (ExternalError ''rate limit'')"
    by (simp add: one_call_env_def)
  show "fails_with one_call_env ''AAPL'' ''moderate'' init (ExternalError ''rate limit'')"
    by (rule errors_propagate [of one_call_env "''AAPL''" "''moderate''" init,
          THEN conjunct2, THEN conjunct2, THEN conjunct2, THEN conjunct2, THEN conjunct1,
          rule_format,
          of "1 / 4" "1 / 4" "1 / 4" sd ei p "[Some '' Stable. '']" "''Stable.''"])
      (intro conjI pol sd ei p c f d)
qed

section \<open>What the outputs depend on\<close>

lemma fetch_news_articles_fixed:
  "\<not> depends_on_random (\<lambda>e. fetch_news_articles company)"
  "\<not> depends_on_model (\<lambda>e. fetch_news_articles company)"
  by (simp_all add: depends_on_random_def depends_on_model_def)

lemma analyze_sentiment_fixed:
  "\<not> depends_on_random (\<lambda>e. analyze_sentiment e t)"
  "\<not> depends_on_model (\<lambda>e. analyze_sentiment e t)"
  by (simp_all add: depends_on_random_def depends_on_model_def analyze_sentiment_def monad_defs)

lemma sample_fields:
  "round2 (fl_add 50 (fl_mul 450 0)) = 50"
  "round2 (fl_add 50 (fl_mul 450 (1 / 2))) = 275"
  "round2 (fl_add (- 2) (fl_mul 7 0)) = - 2"
  "round2 (fl_add (- 2) (fl_mul 7 (1 / 2))) = 3 / 2"
  by code_simp+

lemma fetch_stock_data_random: "depends_on_random (\<lambda>e. fetch_stock_data e sy)"
proof -
  have "fst (fetch_stock_data (demo_env\<lparr>rand := \<lambda>n. 0\<rparr>) sy init)
          \<noteq> fst (fetch_stock_data demo_env sy init)"
    by (simp add: fetch_stock_data_eq demo_env_def init_def sample_fields)
  then show ?thesis
    unfolding depends_on_random_def by blast
qed

lemma fetch_economic_indicators_random: "depends_on_random fetch_economic_indicators"
proof -
  have "fst (fetch_economic_indicators (demo_env\<lparr>rand := \<lambda>n. 0\<rparr>) init)
          \<noteq> fst (fetch_economic_indicators demo_env init)"
    by (simp add: fetch_economic_indicators_eq demo_env_def init_def sample_fields)
  then show ?thesis
    unfolding depends_on_random_def by blast
qed

lemma analyze_market_conditions_model:
  "depends_on_model (\<lambda>e. analyze_market_conditions e
      (Dict [(''symbol'', a), (''price'', b), (''change'', c)]) v
      (Dict [(''gdp_growth'', g), (''unemployment_rate'', u), (''inflation_rate'', i)]))"
proof -
  have "fst (analyze_market_conditions (demo_env\<lparr>chat := \<lambda>n r. Inr [Some ''Hold.'']\<rparr>)
          (Dict [(''symbol'', a), (''price'', b), (''change'', c)]) v
          (Dict [(''gdp_growth'', g), (''unemployment_rate'', u), (''inflation_rate'', i)]) init)
        \<noteq> fst (analyze_market_conditions demo_env
          (Dict [(''symbol'', a), (''price'', b), (''change'', c)]) v
          (Dict [(''gdp_growth'', g), (''unemployment_rate'', u), (''inflation_rate'', i)]) init)"
    by (simp add: analyze_market_conditions_eq demo_env_def first_content_def strip_def
        is_space_def is_space2_def is_space3_def split: sum.splits)
  then show ?thesis
    unfolding depends_on_model_def by blast
qed

lemma generate_investment_recommendation_model:
  "depends_on_model (\<lambda>e. generate_investment_recommendation e market_outlook risk)"
proof -
  have "fst (generate_investment_recommendation
               (demo_env\<lparr>chat := \<lambda>n r. Inr [Some ''Hold.'']\<rparr>) market_outlook risk init)
        \<noteq> fst (generate_investment_recommendation demo_env market_outlook risk init)"
    by (simp add: generate_investment_recommendation_eq demo_env_def first_content_def
        strip_def is_space_def is_space2_def is_space3_def)
  then show ?thesis
    unfolding depends_on_model_def by blast
qed

text \<open>
  C7, as amended. The outputs of \<^verbatim>\<open>fetch_stock_data\<close> and of
  \<^verbatim>\<open>fetch_economic_indicators\<close> depend on the random numbers, and those of
  \<^verbatim>\<open>analyze_market_conditions\<close> (on records with the keys its prompt reads) and of
  \<^verbatim>\<open>generate_investment_recommendation\<close> on the hosted model. The outputs of
  \<^verbatim>\<open>fetch_news_articles\<close> and of \<^verbatim>\<open>analyze_sentiment\<close> depend on neither, and more
  than that a string is returned can be asserted: \<^verbatim>\<open>fetch_news_articles\<close> returns the
  same three headlines for the same company in every state.
\<close>

theorem outputs_depend_on:
  "depends_on_random (\<lambda>e. fetch_stock_data e symbol)
   \<and> depends_on_random fetch_economic_indicators
   \<and> depends_on_model (\<lambda>e. analyze_market_conditions e
        (Dict [(''symbol'', a), (''price'', b), (''change'', c)]) v
        (Dict [(''gdp_growth'', g), (''unemployment_rate'', u), (''inflation_rate'', i)]))
   \<and> depends_on_model (\<lambda>e. generate_investment_recommendation e market_outlook risk_tolerance)
   \<and> \<not> depends_on_random (\<lambda>e. fetch_news_articles company)
   \<and> \<not> depends_on_model (\<lambda>e. fetch_news_articles company)
   \<and> \<not> depends_on_random (\<lambda>e. analyze_sentiment e headline)
   \<and> \<not> depends_on_model (\<lambda>e. analyze_sentiment e headline)
   \<and> fst (fetch_news_articles company s)
       = Inr [company @ '' announces new product line'',
              company @ '' reports quarterly earnings'',
              company @ '' faces regulatory scrutiny'']"
  by (intro conjI fetch_stock_data_random fetch_economic_indicators_random
      analyze_market_conditions_model generate_investment_recommendation_model
      fetch_news_articles_fixed analyze_sentiment_fixed)
    (simp add: fetch_news_articles_eq)

theorem fetch_news_articles_independent_counterexample:
  "\<not> (depends_on_random (\<lambda>e. fetch_news_articles ''AAPL'')
       \<or> depends_on_model (\<lambda>e. fetch_news_articles ''AAPL''))"
  by (simp add: depends_on_random_def depends_on_model_def)

end
